theory Spec2Isabelle
  imports Main "HOL-Library.Word" "HOL-Library.AList" "HOL-Library.Char_ord"
    "HOL-Library.List_Lexorder" "HOL-Library.Multiset"
begin

section \<open>The two stores and the exceptions of the file storage API\<close>

text \<open>
  The repository holds a FastAPI service in two variants: the monolithic \<open>app.py\<close> and
  the layered \<open>main.py\<close> with \<open>services/minio_service.py\<close>,
  \<open>services/database_service.py\<close> and \<open>models/file_model.py\<close>. Both keep the bytes
  of a file in one MinIO bucket and one row per file in a SQLite table \<open>files\<close>. The
  two variants declare different tables and different response models: the column and the
  field of the file's name is \<open>filename\<close> in \<open>app.py\<close> and \<open>file_name\<close> in
  the layered variant. Each variant therefore has its own row, table and model types here,
  and its own world.

  The embedding passes the state of both stores explicitly. A request handler takes the
  world before the request and the choices the environment makes during it (the value of
  \<open>uuid.uuid4()\<close>, the value of \<open>CURRENT_TIMESTAMP\<close>, an exception raised by the
  MinIO client, an exception raised by sqlite3) and returns the HTTP response with the
  world after it. Every \<open>raise\<close> of the source is an \<open>Inl\<close> of the model.
\<close>

type_synonym bytes = "8 word list"

text \<open>
  A Python \<open>str\<close> that a client chooses, the name of an uploaded file and what is built
  from it, is the list of its code points. Strings that stay within one byte per
  character (the uuid, the timestamp, a content type, which Starlette decodes from the
  part's headers as latin-1, the literals of the source) are \<open>string\<close>s; \<open>lit\<close>
  reads one as a \<open>str\<close>.
\<close>

type_synonym pystr = "nat list"

definition lit :: "string \<Rightarrow> pystr" where
  "lit s = map of_char s"

text \<open>The Python exceptions the handlers can meet.\<close>

datatype exn =
    S3Error string
  | MaxRetryError
  | IntegrityError
  | OperationalError
  | ValidationError
  | TypeError
  | UnicodeEncodeError
  | HTTPException nat string

text \<open>
  The \<open>detail\<close> of an error response: a literal, \<open>f"<prefix>{str(e)}"\<close>, or
  \<open>str(e)\<close>. The exception is kept as it is, not rendered.
\<close>

datatype detail = Plain string | Prefixed string exn | StrOf exn

text \<open>One row of the table \<open>files\<close> of \<open>app.py\<close>, with the column
  \<open>filename\<close>. \<open>created_at\<close> is the text SQLite stores for
  \<open>CURRENT_TIMESTAMP\<close>, compared byte by byte.\<close>

record app_row =
  a_id :: int
  a_filename :: pystr
  a_minio_object_key :: pystr
  a_content_type :: "string option"
  a_size :: "nat option"
  a_created_at :: string

text \<open>One row of the table \<open>files\<close> of \<open>database_service.py\<close>, with the column
  \<open>file_name\<close>.\<close>

record row =
  file_id :: int
  file_name :: pystr
  minio_object_key :: pystr
  content_type :: "string option"
  file_size :: "nat option"
  created_at :: string

text \<open>Each table with the counter that \<open>AUTOINCREMENT\<close> keeps in
  \<open>sqlite_sequence\<close>.\<close>

record app_database =
  a_rows :: "app_row list"
  a_seq :: int

record database =
  rows :: "row list"
  seq :: int

text \<open>An object of the bucket: its bytes and the content type it was put with.\<close>

record obj =
  data :: bytes
  obj_content_type :: string

text \<open>The calls a handler makes to the two stores, in the order it makes them.\<close>

datatype call =
    PutObject pystr
  | GetObject pystr
  | RemoveObject pystr
  | SqlInsert pystr
  | SqlSelectId int
  | SqlSelectAll
  | SqlDelete int

text \<open>The world of a variant: its table, the bucket and the calls made so far.\<close>

record 'd world =
  db :: 'd
  bucket :: "(pystr \<times> obj) list"
  calls :: "call list"

record env =
  uuid4 :: string
  now :: string
  store_fault :: "exn option"
  db_fault :: "exn option"

text \<open>The multipart file part of an upload request (\<open>UploadFile\<close>).\<close>

record upload =
  filename :: pystr
  upload_content_type :: "string option"
  content :: bytes

text \<open>The pydantic response models of \<open>app.py\<close> (field \<open>filename\<close>) and of
  \<open>models/file_model.py\<close> (field \<open>file_name\<close>), and the responses of the
  handlers. The headers of a streamed response are bytes.\<close>

record app_file_metadata =
  am_id :: int
  am_filename :: pystr
  am_minio_object_key :: pystr
  am_content_type :: "string option"
  am_size :: "nat option"
  am_created_at :: string

record app_file_upload_response =
  aur_id :: int
  aur_filename :: pystr
  aur_minio_object_key :: pystr
  aur_message :: string

record file_metadata =
  fm_id :: int
  fm_file_name :: pystr
  fm_minio_object_key :: pystr
  fm_content_type :: "string option"
  fm_size :: "nat option"
  fm_created_at :: string

record file_upload_response =
  fur_id :: int
  fur_file_name :: pystr
  fur_minio_object_key :: pystr
  fur_message :: string

datatype response =
    AppUploaded app_file_upload_response
  | AppListed "app_file_metadata list"
  | Uploaded file_upload_response
  | Listed "file_metadata list"
  | Streaming "bytes list" "string option" string
  | Deleted int
  | HttpError nat detail

fun status_code :: "response \<Rightarrow> nat" where
  "status_code (HttpError c d) = c"
| "status_code r = 200"

section \<open>The MinIO client\<close>

text \<open>
  \<open>put_object\<close>, \<open>get_object\<close> and \<open>remove_object\<close> of the MinIO client on
  the one bucket. A fault of the environment is raised before the bucket changes.
  \<open>get_object\<close> of a key the bucket does not hold raises \<open>S3Error\<close> with code
  \<open>NoSuchKey\<close>; \<open>remove_object\<close> of such a key returns normally unless the
  environment makes the provider report it.
\<close>

definition log_call :: "call \<Rightarrow> 'd world \<Rightarrow> 'd world" where
  "log_call c w = w\<lparr>calls := calls w @ [c]\<rparr>"

definition put_object :: "'d world \<Rightarrow> env \<Rightarrow> pystr \<Rightarrow> bytes \<Rightarrow> string \<Rightarrow> (exn + unit) \<times> 'd world" where
  "put_object w e key d ct =
     (let w1 = log_call (PutObject key) w in
      case store_fault e of
        Some x \<Rightarrow> (Inl x, w1)
      | None \<Rightarrow>
          (Inr (), w1\<lparr>bucket := AList.update key \<lparr>data = d, obj_content_type = ct\<rparr> (bucket w1)\<rparr>))"

definition get_object :: "'d world \<Rightarrow> env \<Rightarrow> pystr \<Rightarrow> (exn + bytes) \<times> 'd world" where
  "get_object w e key =
     (let w1 = log_call (GetObject key) w in
      case store_fault e of
        Some x \<Rightarrow> (Inl x, w1)
      | None \<Rightarrow>
          (case map_of (bucket w1) key of
             None \<Rightarrow> (Inl (S3Error ''NoSuchKey''), w1)
           | Some ob \<Rightarrow> (Inr (data ob), w1)))"

definition remove_object :: "'d world \<Rightarrow> env \<Rightarrow> pystr \<Rightarrow> (exn + unit) \<times> 'd world" where
  "remove_object w e key =
     (let w1 = log_call (RemoveObject key) w in
      case store_fault e of
        Some x \<Rightarrow> (Inl x, w1)
      | None \<Rightarrow> (Inr (), w1\<lparr>bucket := AList.delete key (bucket w1)\<rparr>))"

text \<open>\<open>response.stream(amt)\<close>: the chunks of at most \<open>amt\<close> bytes, in order.\<close>

function stream :: "nat \<Rightarrow> bytes \<Rightarrow> bytes list" where
  "stream amt d = (if amt = 0 \<or> d = [] then [] else take amt d # stream amt (drop amt d))"
  by pat_completeness auto
termination
  by (relation "measure (\<lambda>(amt, d). length d)") auto

declare stream.simps [simp del]

section \<open>Shared pieces of Python and Starlette\<close>

text \<open>\<open>x or "application/octet-stream"\<close>: \<open>None\<close> and the empty string are
  falsy.\<close>

definition or_octet_stream :: "string option \<Rightarrow> string" where
  "or_octet_stream x =
     (case x of
        None \<Rightarrow> ''application/octet-stream''
      | Some s \<Rightarrow> if s = [] then ''application/octet-stream'' else s)"

text \<open>\<open>f'attachment; filename="{filename}"'\<close>\<close>

definition content_disposition :: "pystr \<Rightarrow> pystr" where
  "content_disposition name = lit ''attachment; filename=\"'' @ name @ lit ''\"''"

text \<open>\<open>v.encode("latin-1")\<close>: a code point above 255 raises
  \<open>UnicodeEncodeError\<close>.\<close>

definition encode_latin1 :: "pystr \<Rightarrow> exn + string" where
  "encode_latin1 s =
     (if list_all (\<lambda>c. c < 256) s then Inr (map char_of s) else Inl UnicodeEncodeError)"

text \<open>The constructor \<open>StreamingResponse(content, media_type=..., headers=...)\<close>
  with the one header \<open>Content-Disposition\<close>: Starlette's \<open>init_headers\<close>
  encodes the header's value as latin-1, inside the handler's \<open>try\<close>.\<close>

definition StreamingResponse :: "bytes list \<Rightarrow> string option \<Rightarrow> pystr \<Rightarrow> exn + response" where
  "StreamingResponse body media_type disposition =
     (case encode_latin1 disposition of
        Inl x \<Rightarrow> Inl x
      | Inr h \<Rightarrow> Inr (Streaming body media_type h))"

text \<open>\<open>s.split(c)\<close> for a separator of one character.\<close>

fun py_split :: "'a \<Rightarrow> 'a list \<Rightarrow> 'a list list" where
  "py_split c [] = [[]]"
| "py_split c (x # xs) =
     (if x = c then [] # py_split c xs
      else (case py_split c xs of [] \<Rightarrow> [[x]] | p # ps \<Rightarrow> (x # p) # ps))"

section \<open>The monolithic variant: \<open>app.py\<close>\<close>

subsection \<open>Its table\<close>

text \<open>
  \<open>INSERT INTO files (filename, minio_object_key, content_type, size)\<close>: the key
  is \<open>UNIQUE\<close>, the id is one more than the largest id the table has or ever had, and
  \<open>created_at\<close> is the default \<open>CURRENT_TIMESTAMP\<close>. Returns \<open>lastrowid\<close>.
\<close>

definition app_next_id :: "app_database \<Rightarrow> int" where
  "app_next_id d = fold max (map a_id (a_rows d)) (a_seq d) + 1"

definition app_new_row ::
  "app_database \<Rightarrow> env \<Rightarrow> pystr \<Rightarrow> pystr \<Rightarrow> string option \<Rightarrow> nat option \<Rightarrow> app_row" where
  "app_new_row d e name key ct sz =
     \<lparr>a_id = app_next_id d, a_filename = name, a_minio_object_key = key,
      a_content_type = ct, a_size = sz, a_created_at = now e\<rparr>"

definition app_sql_insert ::
  "app_database world \<Rightarrow> env \<Rightarrow> pystr \<Rightarrow> pystr \<Rightarrow> string option \<Rightarrow> nat option
     \<Rightarrow> (exn + int) \<times> app_database world" where
  "app_sql_insert w e name key ct sz =
     (let w1 = log_call (SqlInsert key) w in
      case db_fault e of
        Some x \<Rightarrow> (Inl x, w1)
      | None \<Rightarrow>
          if key \<in> set (map a_minio_object_key (a_rows (db w1))) then (Inl IntegrityError, w1)
          else
            (let r = app_new_row (db w1) e name key ct sz
             in (Inr (a_id r), w1\<lparr>db := \<lparr>a_rows = a_rows (db w1) @ [r], a_seq = a_id r\<rparr>\<rparr>)))"

text \<open>\<open>SELECT ... FROM files WHERE id = ?\<close> with \<open>fetchone()\<close>.\<close>

definition app_sql_select_id ::
  "app_database world \<Rightarrow> env \<Rightarrow> int \<Rightarrow> (exn + app_row option) \<times> app_database world" where
  "app_sql_select_id w e i =
     (let w1 = log_call (SqlSelectId i) w in
      case db_fault e of
        Some x \<Rightarrow> (Inl x, w1)
      | None \<Rightarrow> (Inr (find (\<lambda>r. a_id r = i) (a_rows (db w1))), w1))"

text \<open>\<open>SELECT ... FROM files ORDER BY created_at DESC\<close> with \<open>fetchall()\<close>. SQL
  leaves the order of rows with equal \<open>created_at\<close> open; here they keep the order of
  the table.\<close>

definition app_order_by_created_at_desc :: "app_row list \<Rightarrow> app_row list" where
  "app_order_by_created_at_desc rs = rev (sort_key a_created_at (rev rs))"

definition app_sql_select_all ::
  "app_database world \<Rightarrow> env \<Rightarrow> (exn + app_row list) \<times> app_database world" where
  "app_sql_select_all w e =
     (let w1 = log_call SqlSelectAll w in
      case db_fault e of
        Some x \<Rightarrow> (Inl x, w1)
      | None \<Rightarrow> (Inr (app_order_by_created_at_desc (a_rows (db w1))), w1))"

text \<open>\<open>DELETE FROM files WHERE id = ?\<close>; \<open>app.py\<close> does not read
  \<open>cursor.rowcount\<close>.\<close>

definition app_sql_delete ::
  "app_database world \<Rightarrow> env \<Rightarrow> int \<Rightarrow> (exn + nat) \<times> app_database world" where
  "app_sql_delete w e i =
     (let w1 = log_call (SqlDelete i) w in
      case db_fault e of
        Some x \<Rightarrow> (Inl x, w1)
      | None \<Rightarrow>
          (Inr (length (filter (\<lambda>r. a_id r = i) (a_rows (db w1)))),
           w1\<lparr>db := (db w1)\<lparr>a_rows := filter (\<lambda>r. a_id r \<noteq> i) (a_rows (db w1))\<rparr>\<rparr>))"

subsection \<open>Its models\<close>

text \<open>The pydantic model \<open>FileMetadata\<close> of \<open>app.py\<close>: \<open>id\<close>,
  \<open>filename\<close>, \<open>minio_object_key\<close> and \<open>created_at\<close> are required,
  \<open>content_type\<close> and \<open>size\<close> default to \<open>None\<close>. An argument is \<open>None\<close> when
  the keyword is left out or its value is \<open>None\<close>.\<close>

definition AppFileMetadata ::
  "int option \<Rightarrow> pystr option \<Rightarrow> pystr option \<Rightarrow> string option \<Rightarrow> nat option \<Rightarrow> string option
     \<Rightarrow> exn + app_file_metadata" where
  "AppFileMetadata i name key ct sz created =
     (case (i, name, key, created) of
        (Some i', Some name', Some key', Some created') \<Rightarrow>
          Inr \<lparr>am_id = i', am_filename = name', am_minio_object_key = key',
               am_content_type = ct, am_size = sz, am_created_at = created'\<rparr>
      | _ \<Rightarrow> Inl ValidationError)"

text \<open>The model that the list comprehension of \<open>list_files\<close> builds for a
  row, when every required field is there.\<close>

definition app_listed :: "app_row \<Rightarrow> app_file_metadata" where
  "app_listed r =
     \<lparr>am_id = a_id r, am_filename = a_filename r, am_minio_object_key = a_minio_object_key r,
      am_content_type = a_content_type r, am_size = a_size r, am_created_at = a_created_at r\<rparr>"

definition app_row_metadata :: "app_row \<Rightarrow> exn + app_file_metadata" where
  "app_row_metadata r =
     AppFileMetadata (Some (a_id r)) (Some (a_filename r)) (Some (a_minio_object_key r))
       (a_content_type r) (a_size r) (Some (a_created_at r))"

text \<open>The list comprehension over the rows: the first constructor that raises ends
  it.\<close>

fun app_rows_metadata :: "app_row list \<Rightarrow> exn + app_file_metadata list" where
  "app_rows_metadata [] = Inr []"
| "app_rows_metadata (r # rs) =
     (case app_row_metadata r of
        Inl x \<Rightarrow> Inl x
      | Inr m \<Rightarrow> (case app_rows_metadata rs of Inl x \<Rightarrow> Inl x | Inr ms \<Rightarrow> Inr (m # ms)))"

subsection \<open>Its handlers\<close>

text \<open>The \<open>except\<close> clauses of \<open>upload_file\<close>: \<open>S3Error\<close>, then
  \<open>Exception\<close>.\<close>

definition app_upload_error :: "exn \<Rightarrow> response" where
  "app_upload_error x =
     (case x of
        S3Error c \<Rightarrow> HttpError 500 (Prefixed ''MinIO error: '' x)
      | _ \<Rightarrow> HttpError 500 (Prefixed ''Upload error: '' x))"

text \<open>The \<open>except\<close> clauses of \<open>download_file\<close> and \<open>delete_file\<close>:
  \<open>S3Error\<close>, then \<open>HTTPException\<close> (raised again as it is), then
  \<open>Exception\<close>.\<close>

definition app_error :: "string \<Rightarrow> exn \<Rightarrow> response" where
  "app_error prefix x =
     (case x of
        S3Error c \<Rightarrow> HttpError 500 (Prefixed ''MinIO error: '' x)
      | HTTPException c d \<Rightarrow> HttpError c (Plain d)
      | _ \<Rightarrow> HttpError 500 (Prefixed prefix x))"

text \<open>\<open>f"{uuid.uuid4()}_{file.filename}"\<close>\<close>

definition app_object_key :: "string \<Rightarrow> pystr \<Rightarrow> pystr" where
  "app_object_key u name = lit u @ lit ''_'' @ name"

definition app_upload_file ::
  "app_database world \<Rightarrow> env \<Rightarrow> upload \<Rightarrow> response \<times> app_database world" where
  "app_upload_file w e f =
     (let object_key = app_object_key (uuid4 e) (filename f);
          sz = length (content f)
      in case put_object w e object_key (content f) (or_octet_stream (upload_content_type f)) of
           (Inl x, w1) \<Rightarrow> (app_upload_error x, w1)
         | (Inr u, w1) \<Rightarrow>
             (case app_sql_insert w1 e (filename f) object_key (upload_content_type f) (Some sz) of
                (Inl x, w2) \<Rightarrow> (app_upload_error x, w2)
              | (Inr i, w2) \<Rightarrow>
                  (AppUploaded \<lparr>aur_id = i, aur_filename = filename f,
                                aur_minio_object_key = object_key,
                                aur_message = ''File uploaded successfully''\<rparr>, w2)))"

definition app_list_files :: "app_database world \<Rightarrow> env \<Rightarrow> response \<times> app_database world" where
  "app_list_files w e =
     (case app_sql_select_all w e of
        (Inl x, w1) \<Rightarrow> (HttpError 500 (Prefixed ''Error listing files: '' x), w1)
      | (Inr rs, w1) \<Rightarrow>
          (case app_rows_metadata rs of
             Inl x \<Rightarrow> (HttpError 500 (Prefixed ''Error listing files: '' x), w1)
           | Inr ms \<Rightarrow> (AppListed ms, w1)))"

text \<open>\<open>download_file\<close> from the row on: \<open>get_object\<close>, then the response that
  streams the object in chunks of 32 KiB; an exception of its constructor is caught by
  \<open>except Exception\<close>.\<close>

definition app_download_row ::
  "app_database world \<Rightarrow> env \<Rightarrow> app_row \<Rightarrow> response \<times> app_database world" where
  "app_download_row w e r =
     (case get_object w e (a_minio_object_key r) of
        (Inl x, w1) \<Rightarrow> (app_error ''Download error: '' x, w1)
      | (Inr d, w1) \<Rightarrow>
          (case StreamingResponse (stream (32 * 1024) d) (Some (or_octet_stream (a_content_type r)))
                  (content_disposition (a_filename r)) of
             Inl x \<Rightarrow> (app_error ''Download error: '' x, w1)
           | Inr resp \<Rightarrow> (resp, w1)))"

definition app_download_file ::
  "app_database world \<Rightarrow> env \<Rightarrow> int \<Rightarrow> response \<times> app_database world" where
  "app_download_file w e i =
     (case app_sql_select_id w e i of
        (Inl x, w1) \<Rightarrow> (app_error ''Download error: '' x, w1)
      | (Inr None, w1) \<Rightarrow> (app_error ''Download error: '' (HTTPException 404 ''File not found''), w1)
      | (Inr (Some r), w1) \<Rightarrow> app_download_row w1 e r)"

text \<open>\<open>delete_file\<close> from the object key on: \<open>remove_object\<close>, then the
  \<open>DELETE\<close>, whose \<open>rowcount\<close> is not read.\<close>

definition app_delete_key ::
  "app_database world \<Rightarrow> env \<Rightarrow> int \<Rightarrow> pystr \<Rightarrow> response \<times> app_database world" where
  "app_delete_key w e i object_key =
     (case remove_object w e object_key of
        (Inl x, w1) \<Rightarrow> (app_error ''Delete error: '' x, w1)
      | (Inr u, w1) \<Rightarrow>
          (case app_sql_delete w1 e i of
             (Inl x, w2) \<Rightarrow> (app_error ''Delete error: '' x, w2)
           | (Inr n, w2) \<Rightarrow> (Deleted i, w2)))"

definition app_delete_file ::
  "app_database world \<Rightarrow> env \<Rightarrow> int \<Rightarrow> response \<times> app_database world" where
  "app_delete_file w e i =
     (case app_sql_select_id w e i of
        (Inl x, w1) \<Rightarrow> (app_error ''Delete error: '' x, w1)
      | (Inr None, w1) \<Rightarrow> (app_error ''Delete error: '' (HTTPException 404 ''File not found''), w1)
      | (Inr (Some r), w1) \<Rightarrow> app_delete_key w1 e i (a_minio_object_key r))"

section \<open>The layered variant: \<open>main.py\<close> and its services\<close>

subsection \<open>\<open>services/minio_service.py\<close>\<close>

text \<open>\<open>file.filename.split(".")[-1]\<close> and
  \<open>f"{uuid.uuid4()}_file.{file_extension}"\<close>\<close>

definition file_extension :: "upload \<Rightarrow> pystr" where
  "file_extension f = last (py_split (of_char (CHR ''.'')) (filename f))"

definition service_object_key :: "string \<Rightarrow> pystr \<Rightarrow> pystr" where
  "service_object_key u ext = lit u @ lit ''_file.'' @ ext"

definition upload_file_to_minio ::
  "database world \<Rightarrow> env \<Rightarrow> upload \<Rightarrow> (exn + pystr \<times> pystr \<times> nat \<times> string) \<times> database world" where
  "upload_file_to_minio w e f =
     (let object_key = service_object_key (uuid4 e) (file_extension f);
          sz = length (content f);
          ct = or_octet_stream (upload_content_type f)
      in case put_object w e object_key (content f) ct of
           (Inl x, w1) \<Rightarrow> (Inl x, w1)
         | (Inr u, w1) \<Rightarrow> (Inr (filename f, object_key, sz, ct), w1))"

text \<open>\<open>response.stream()\<close> takes urllib3's default chunk size, 65536.\<close>

definition download_file_from_minio :: "database world \<Rightarrow> env \<Rightarrow> pystr \<Rightarrow> (exn + bytes list) \<times> database world" where
  "download_file_from_minio w e object_key =
     (case get_object w e object_key of
        (Inl x, w1) \<Rightarrow> (Inl x, w1)
      | (Inr d, w1) \<Rightarrow> (Inr (stream 65536 d), w1))"

definition delete_file_from_minio :: "database world \<Rightarrow> env \<Rightarrow> pystr \<Rightarrow> (exn + unit) \<times> database world" where
  "delete_file_from_minio w e object_key = remove_object w e object_key"

subsection \<open>The table of \<open>services/database_service.py\<close>\<close>

text \<open>
  \<open>INSERT INTO files (file_name, minio_object_key, content_type, size)\<close>: the key is
  \<open>UNIQUE\<close>, the id is one more than the largest id the table has or ever had, and
  \<open>created_at\<close> is the default \<open>CURRENT_TIMESTAMP\<close>. Returns \<open>lastrowid\<close>.
\<close>

definition next_id :: "database \<Rightarrow> int" where
  "next_id d = fold max (map file_id (rows d)) (seq d) + 1"

definition new_row :: "database \<Rightarrow> env \<Rightarrow> pystr \<Rightarrow> pystr \<Rightarrow> string option \<Rightarrow> nat option \<Rightarrow> row" where
  "new_row d e name key ct sz =
     \<lparr>file_id = next_id d, file_name = name, minio_object_key = key,
      content_type = ct, file_size = sz, created_at = now e\<rparr>"

definition sql_insert ::
  "database world \<Rightarrow> env \<Rightarrow> pystr \<Rightarrow> pystr \<Rightarrow> string option \<Rightarrow> nat option
     \<Rightarrow> (exn + int) \<times> database world" where
  "sql_insert w e name key ct sz =
     (let w1 = log_call (SqlInsert key) w in
      case db_fault e of
        Some x \<Rightarrow> (Inl x, w1)
      | None \<Rightarrow>
          if key \<in> set (map minio_object_key (rows (db w1))) then (Inl IntegrityError, w1)
          else
            (let r = new_row (db w1) e name key ct sz
             in (Inr (file_id r), w1\<lparr>db := \<lparr>rows = rows (db w1) @ [r], seq = file_id r\<rparr>\<rparr>)))"

text \<open>\<open>SELECT ... FROM files WHERE id = ?\<close> with \<open>fetchone()\<close>.\<close>

definition sql_select_id :: "database world \<Rightarrow> env \<Rightarrow> int \<Rightarrow> (exn + row option) \<times> database world" where
  "sql_select_id w e i =
     (let w1 = log_call (SqlSelectId i) w in
      case db_fault e of
        Some x \<Rightarrow> (Inl x, w1)
      | None \<Rightarrow> (Inr (find (\<lambda>r. file_id r = i) (rows (db w1))), w1))"

text \<open>\<open>SELECT ... FROM files ORDER BY created_at DESC\<close> with \<open>fetchall()\<close>. SQL
  leaves the order of rows with equal \<open>created_at\<close> open; here they keep the order of
  the table.\<close>

definition order_by_created_at_desc :: "row list \<Rightarrow> row list" where
  "order_by_created_at_desc rs = rev (sort_key created_at (rev rs))"

definition sql_select_all :: "database world \<Rightarrow> env \<Rightarrow> (exn + row list) \<times> database world" where
  "sql_select_all w e =
     (let w1 = log_call SqlSelectAll w in
      case db_fault e of
        Some x \<Rightarrow> (Inl x, w1)
      | None \<Rightarrow> (Inr (order_by_created_at_desc (rows (db w1))), w1))"

text \<open>\<open>DELETE FROM files WHERE id = ?\<close>; returns \<open>cursor.rowcount\<close>.\<close>

definition sql_delete :: "database world \<Rightarrow> env \<Rightarrow> int \<Rightarrow> (exn + nat) \<times> database world" where
  "sql_delete w e i =
     (let w1 = log_call (SqlDelete i) w in
      case db_fault e of
        Some x \<Rightarrow> (Inl x, w1)
      | None \<Rightarrow>
          (Inr (length (filter (\<lambda>r. file_id r = i) (rows (db w1)))),
           w1\<lparr>db := (db w1)\<lparr>rows := filter (\<lambda>r. file_id r \<noteq> i) (rows (db w1))\<rparr>\<rparr>))"

subsection \<open>\<open>models/file_model.py\<close>\<close>

text \<open>The pydantic model \<open>FileMetadata\<close> of \<open>models/file_model.py\<close>: \<open>id\<close>,
  \<open>file_name\<close>, \<open>minio_object_key\<close> and \<open>created_at\<close> are required,
  \<open>content_type\<close> and \<open>size\<close> default to \<open>None\<close>. An argument is \<open>None\<close> when
  the keyword is left out or its value is \<open>None\<close>.\<close>

definition FileMetadata ::
  "int option \<Rightarrow> pystr option \<Rightarrow> pystr option \<Rightarrow> string option \<Rightarrow> nat option \<Rightarrow> string option
     \<Rightarrow> exn + file_metadata" where
  "FileMetadata i name key ct sz created =
     (case (i, name, key, created) of
        (Some i', Some name', Some key', Some created') \<Rightarrow>
          Inr \<lparr>fm_id = i', fm_file_name = name', fm_minio_object_key = key',
               fm_content_type = ct, fm_size = sz, fm_created_at = created'\<rparr>
      | _ \<Rightarrow> Inl ValidationError)"

text \<open>The model that the list comprehension of \<open>list_files\<close> builds for a
  row, when every required field is there.\<close>

definition listed :: "row \<Rightarrow> file_metadata" where
  "listed r =
     \<lparr>fm_id = file_id r, fm_file_name = file_name r, fm_minio_object_key = minio_object_key r,
      fm_content_type = content_type r, fm_size = file_size r, fm_created_at = created_at r\<rparr>"

definition row_metadata :: "row \<Rightarrow> exn + file_metadata" where
  "row_metadata r =
     FileMetadata (Some (file_id r)) (Some (file_name r)) (Some (minio_object_key r))
       (content_type r) (file_size r) (Some (created_at r))"

text \<open>The list comprehension over the rows: the first constructor that raises ends
  it.\<close>

fun rows_metadata :: "row list \<Rightarrow> exn + file_metadata list" where
  "rows_metadata [] = Inr []"
| "rows_metadata (r # rs) =
     (case row_metadata r of
        Inl x \<Rightarrow> Inl x
      | Inr m \<Rightarrow> (case rows_metadata rs of Inl x \<Rightarrow> Inl x | Inr ms \<Rightarrow> Inr (m # ms)))"

subsection \<open>The functions of \<open>services/database_service.py\<close>\<close>

text \<open>\<open>get_file_metadata\<close> builds the model from \<open>id\<close>, \<open>file_name\<close>,
  \<open>minio_object_key\<close> and \<open>content_type\<close> only.\<close>

definition get_file_metadata :: "database world \<Rightarrow> env \<Rightarrow> int \<Rightarrow> (exn + file_metadata option) \<times> database world" where
  "get_file_metadata w e i =
     (case sql_select_id w e i of
        (Inl x, w1) \<Rightarrow> (Inl x, w1)
      | (Inr None, w1) \<Rightarrow> (Inr None, w1)
      | (Inr (Some r), w1) \<Rightarrow>
          (case FileMetadata (Some i) (Some (file_name r)) (Some (minio_object_key r))
                  (content_type r) None None of
             Inl x \<Rightarrow> (Inl x, w1)
           | Inr m \<Rightarrow> (Inr (Some m), w1)))"

definition add_file_metadata ::
  "database world \<Rightarrow> env \<Rightarrow> pystr \<Rightarrow> pystr \<Rightarrow> string option \<Rightarrow> nat option
     \<Rightarrow> (exn + file_metadata option) \<times> database world" where
  "add_file_metadata w e name object_key ct sz =
     (case sql_insert w e name object_key ct sz of
        (Inl x, w1) \<Rightarrow> (Inl x, w1)
      | (Inr i, w1) \<Rightarrow> get_file_metadata w1 e i)"

definition list_files :: "database world \<Rightarrow> env \<Rightarrow> (exn + file_metadata list) \<times> database world" where
  "list_files w e =
     (case sql_select_all w e of
        (Inl x, w1) \<Rightarrow> (Inl x, w1)
      | (Inr rs, w1) \<Rightarrow> (rows_metadata rs, w1))"

definition delete_file_metadata :: "database world \<Rightarrow> env \<Rightarrow> int \<Rightarrow> (exn + bool) \<times> database world" where
  "delete_file_metadata w e i =
     (case sql_delete w e i of
        (Inl x, w1) \<Rightarrow> (Inl x, w1)
      | (Inr n, w1) \<Rightarrow> (Inr (n > 0), w1))"

subsection \<open>\<open>main.py\<close>\<close>

text \<open>Every handler of \<open>main.py\<close> has the one clause \<open>except Exception as e\<close>,
  which turns any exception, an \<open>HTTPException\<close> of the handler's own too, into
  status 500 with \<open>str(e)\<close>.\<close>

definition main_error :: "exn \<Rightarrow> response" where
  "main_error x = HttpError 500 (StrOf x)"

text \<open>\<open>FileUploadResponse(id=file_id, ...)\<close> is given what
  \<open>add_file_metadata\<close> returned, a model or \<open>None\<close>, where the field is declared
  \<open>int\<close>.\<close>

definition FileUploadResponse ::
  "file_metadata option \<Rightarrow> pystr \<Rightarrow> pystr \<Rightarrow> string \<Rightarrow> exn + file_upload_response" where
  "FileUploadResponse i name key msg = Inl ValidationError"

definition main_upload_file :: "database world \<Rightarrow> env \<Rightarrow> upload \<Rightarrow> response \<times> database world" where
  "main_upload_file w e f =
     (case upload_file_to_minio w e f of
        (Inl x, w1) \<Rightarrow> (main_error x, w1)
      | (Inr (name, object_key, sz, ct), w1) \<Rightarrow>
          (case add_file_metadata w1 e name object_key (Some ct) (Some sz) of
             (Inl x, w2) \<Rightarrow> (main_error x, w2)
           | (Inr m, w2) \<Rightarrow>
               (case FileUploadResponse m name object_key ''File uploaded successfully'' of
                  Inl x \<Rightarrow> (main_error x, w2)
                | Inr r \<Rightarrow> (Uploaded r, w2))))"

definition main_list_files_endpoint :: "database world \<Rightarrow> env \<Rightarrow> response \<times> database world" where
  "main_list_files_endpoint w e =
     (case list_files w e of
        (Inl x, w1) \<Rightarrow> (main_error x, w1)
      | (Inr ms, w1) \<Rightarrow> (Listed ms, w1))"

text \<open>\<open>download_file\<close> from the model on: the media type is the model's
  \<open>content_type\<close> as it is.\<close>

definition main_download_found :: "database world \<Rightarrow> env \<Rightarrow> file_metadata \<Rightarrow> response \<times> database world" where
  "main_download_found w e m =
     (case download_file_from_minio w e (fm_minio_object_key m) of
        (Inl x, w1) \<Rightarrow> (main_error x, w1)
      | (Inr res, w1) \<Rightarrow>
          (case StreamingResponse res (fm_content_type m) (content_disposition (fm_file_name m)) of
             Inl x \<Rightarrow> (main_error x, w1)
           | Inr resp \<Rightarrow> (resp, w1)))"

definition main_download_file :: "database world \<Rightarrow> env \<Rightarrow> int \<Rightarrow> response \<times> database world" where
  "main_download_file w e i =
     (case get_file_metadata w e i of
        (Inl x, w1) \<Rightarrow> (main_error x, w1)
      | (Inr None, w1) \<Rightarrow> (main_error (HTTPException 404 ''File not found''), w1)
      | (Inr (Some m), w1) \<Rightarrow> main_download_found w1 e m)"

text \<open>\<open>file["minio_object_key"]\<close>: a pydantic model is not subscriptable.\<close>

definition subscript :: "file_metadata \<Rightarrow> string \<Rightarrow> exn + pystr" where
  "subscript m k = Inl TypeError"

text \<open>\<open>delete_file\<close> from the object key on.\<close>

definition main_delete_key :: "database world \<Rightarrow> env \<Rightarrow> int \<Rightarrow> pystr \<Rightarrow> response \<times> database world" where
  "main_delete_key w e i object_key =
     (case delete_file_from_minio w e object_key of
        (Inl x, w1) \<Rightarrow> (main_error x, w1)
      | (Inr u, w1) \<Rightarrow>
          (case delete_file_metadata w1 e i of
             (Inl x, w2) \<Rightarrow> (main_error x, w2)
           | (Inr deleted, w2) \<Rightarrow>
               if \<not> deleted then (main_error (HTTPException 404 ''File not found in database''), w2)
               else (Deleted i, w2)))"

definition main_delete_file :: "database world \<Rightarrow> env \<Rightarrow> int \<Rightarrow> response \<times> database world" where
  "main_delete_file w e i =
     (case get_file_metadata w e i of
        (Inl x, w1) \<Rightarrow> (main_error x, w1)
      | (Inr None, w1) \<Rightarrow> (main_error (HTTPException 404 ''File not found in database''), w1)
      | (Inr (Some m), w1) \<Rightarrow>
          (case subscript m ''minio_object_key'' of
             Inl x \<Rightarrow> (main_error x, w1)
           | Inr object_key \<Rightarrow> main_delete_key w1 e i object_key))"

section \<open>Concrete scenarios\<close>

text \<open>The scenario of the specification: \<open>hello.txt\<close> with the two bytes
  \<open>b"hi"\<close>, and an environment that raises nothing.\<close>

definition quiet :: env where
  "quiet =
     \<lparr>uuid4 = ''u2'', now = ''2024-01-02 00:00:00'', store_fault = None, db_fault = None\<rparr>"


definition store_down :: env where
  "store_down = quiet\<lparr>store_fault := Some MaxRetryError\<rparr>"

definition db_down :: env where
  "db_down = quiet\<lparr>db_fault := Some OperationalError\<rparr>"

definition key_reported_absent :: env where
  "key_reported_absent = quiet\<lparr>store_fault := Some (S3Error ''NoSuchKey'')\<rparr>"

definition hello_upload :: upload where
  "hello_upload =
     \<lparr>filename = lit ''hello.txt'', upload_content_type = Some ''text/plain'',
      content = [104, 105]\<rparr>"


text \<open>An upload without a content type, and one whose name is the Cyrillic word
  for "file" with the extension \<open>.txt\<close>, whose first four code points are above
  255.\<close>

definition bare_upload :: upload where
  "bare_upload = \<lparr>filename = lit ''notes'', upload_content_type = None, content = [104, 105]\<rparr>"

definition cyrillic_name :: pystr where
  "cyrillic_name = [1092, 1072, 1081, 1083, 46, 116, 120, 116]"


subsection \<open>Worlds of \<open>app.py\<close>\<close>

definition app_empty_world :: "app_database world" where
  "app_empty_world = \<lparr>db = \<lparr>a_rows = [], a_seq = 0\<rparr>, bucket = [], calls = []\<rparr>"

definition app_hello_row :: app_row where
  "app_hello_row =
     \<lparr>a_id = 1, a_filename = lit ''hello.txt'', a_minio_object_key = lit ''u1_hello.txt'',
      a_content_type = Some ''text/plain'', a_size = Some 2,
      a_created_at = ''2024-01-01 00:00:00''\<rparr>"

text \<open>The row of \<open>hello.txt\<close> without its blob.\<close>

definition app_orphan_world :: "app_database world" where
  "app_orphan_world = \<lparr>db = \<lparr>a_rows = [app_hello_row], a_seq = 1\<rparr>, bucket = [], calls = []\<rparr>"

text \<open>A row whose \<open>content_type\<close> is \<open>NULL\<close>, as \<open>app.py\<close> stores it for
  an upload without a content type, with its blob.\<close>

definition app_bare_row :: app_row where
  "app_bare_row =
     \<lparr>a_id = 1, a_filename = lit ''notes'', a_minio_object_key = lit ''u1_notes'',
      a_content_type = None, a_size = Some 2, a_created_at = ''2024-01-01 00:00:00''\<rparr>"

definition app_bare_world :: "app_database world" where
  "app_bare_world =
     \<lparr>db = \<lparr>a_rows = [app_bare_row], a_seq = 1\<rparr>,
      bucket = [(lit ''u1_notes'',
                 \<lparr>data = [104, 105], obj_content_type = ''application/octet-stream''\<rparr>)],
      calls = []\<rparr>"

text \<open>A table of two rows, the older one first.\<close>

definition app_later_row :: app_row where
  "app_later_row =
     \<lparr>a_id = 2, a_filename = lit ''hello.txt'', a_minio_object_key = lit ''u3_hello.txt'',
      a_content_type = Some ''text/plain'', a_size = Some 5,
      a_created_at = ''2024-01-03 00:00:00''\<rparr>"

definition app_two_rows_world :: "app_database world" where
  "app_two_rows_world =
     \<lparr>db = \<lparr>a_rows = [app_hello_row, app_later_row], a_seq = 2\<rparr>, bucket = [], calls = []\<rparr>"

text \<open>What the upload of \<open>hello.txt\<close> into the empty stores answers and leaves,
  and the answer to a second upload of the same name.\<close>

definition hello_receipt :: app_file_upload_response where
  "hello_receipt =
     \<lparr>aur_id = 1, aur_filename = lit ''hello.txt'', aur_minio_object_key = lit ''u2_hello.txt'',
      aur_message = ''File uploaded successfully''\<rparr>"

definition hello_stored :: "app_database world" where
  "hello_stored =
     \<lparr>db = \<lparr>a_rows = [\<lparr>a_id = 1, a_filename = lit ''hello.txt'',
                        a_minio_object_key = lit ''u2_hello.txt'',
                        a_content_type = Some ''text/plain'',
                        a_size = Some 2, a_created_at = ''2024-01-02 00:00:00''\<rparr>],
            a_seq = 1\<rparr>,
      bucket = [(lit ''u2_hello.txt'', \<lparr>data = [104, 105], obj_content_type = ''text/plain''\<rparr>)],
      calls = [PutObject (lit ''u2_hello.txt''), SqlInsert (lit ''u2_hello.txt'')]\<rparr>"




subsection \<open>Worlds of the layered variant\<close>

definition empty_world :: "database world" where
  "empty_world = \<lparr>db = \<lparr>rows = [], seq = 0\<rparr>, bucket = [], calls = []\<rparr>"

definition hello_row :: row where
  "hello_row =
     \<lparr>file_id = 1, file_name = lit ''hello.txt'', minio_object_key = lit ''u1_file.txt'',
      content_type = Some ''text/plain'', file_size = Some 2,
      created_at = ''2024-01-01 00:00:00''\<rparr>"

definition hello_world :: "database world" where
  "hello_world =
     \<lparr>db = \<lparr>rows = [hello_row], seq = 1\<rparr>,
      bucket = [(lit ''u1_file.txt'', \<lparr>data = [104, 105], obj_content_type = ''text/plain''\<rparr>)],
      calls = []\<rparr>"

definition later_row :: row where
  "later_row =
     \<lparr>file_id = 2, file_name = lit ''hello.txt'', minio_object_key = lit ''u3_file.txt'',
      content_type = Some ''text/plain'', file_size = Some 5,
      created_at = ''2024-01-03 00:00:00''\<rparr>"

definition two_rows_world :: "database world" where
  "two_rows_world =
     \<lparr>db = \<lparr>rows = [hello_row, later_row], seq = 2\<rparr>, bucket = [], calls = []\<rparr>"


definition hello_layered :: "database world" where
  "hello_layered =
     \<lparr>db = \<lparr>rows = [\<lparr>file_id = 1, file_name = lit ''hello.txt'',
                      minio_object_key = lit ''u2_file.txt'', content_type = Some ''text/plain'',
                      file_size = Some 2, created_at = ''2024-01-02 00:00:00''\<rparr>],
            seq = 1\<rparr>,
      bucket = [(lit ''u2_file.txt'', \<lparr>data = [104, 105], obj_content_type = ''text/plain''\<rparr>)],
      calls = [PutObject (lit ''u2_file.txt''), SqlInsert (lit ''u2_file.txt''), SqlSelectId 1]\<rparr>"

section \<open>Corresponding tables of the two variants\<close>

text \<open>
  The two variants cannot share a table. To compare them, a row of \<open>app.py\<close> and a
  row of the layered variant hold the same file when they agree on the id, the file's
  name, the size and \<open>created_at\<close>; the object key and the stored content type are
  left out, since the variants build them differently. Two tables correspond when their
  rows do, one by one, and their \<open>AUTOINCREMENT\<close> counters agree; two listed models
  correspond like two rows.
\<close>

definition same_file :: "app_row \<Rightarrow> row \<Rightarrow> bool" where
  "same_file ra rm \<longleftrightarrow>
     a_id ra = file_id rm \<and> a_filename ra = file_name rm \<and> a_size ra = file_size rm
     \<and> a_created_at ra = created_at rm"

definition same_files :: "app_database \<Rightarrow> database \<Rightarrow> bool" where
  "same_files da dm \<longleftrightarrow> list_all2 same_file (a_rows da) (rows dm) \<and> a_seq da = seq dm"

definition same_model :: "app_file_metadata \<Rightarrow> file_metadata \<Rightarrow> bool" where
  "same_model ma mm \<longleftrightarrow>
     am_id ma = fm_id mm \<and> am_filename ma = fm_file_name mm \<and> am_size ma = fm_size mm
     \<and> am_created_at ma = fm_created_at mm"

section \<open>Facts about strings\<close>

lemma lit_append_fold: "lit a @ lit b = lit (a @ b)"
  by (simp add: lit_def)



lemma encode_latin1_lit: "encode_latin1 (lit s) = Inr s"
  by (simp add: encode_latin1_def lit_def list_all_iff comp_def)

lemma latin1_lit: "list_all (\<lambda>c. c < 256) (lit s)"
  by (simp add: lit_def list_all_iff)

text \<open>The header of a name within latin-1 is encoded; a name with a code point above
  255 makes the constructor raise.\<close>

lemma encode_content_disposition:
  "list_all (\<lambda>c. c < 256) name \<Longrightarrow>
   encode_latin1 (content_disposition name) = Inr (map char_of (content_disposition name))"
  by (simp add: encode_latin1_def content_disposition_def latin1_lit)


lemma map_char_of_lit: "map char_of (lit s) = s"
  by (simp add: lit_def comp_def)

lemma content_disposition_lit:
  "map char_of (content_disposition (lit s)) = ''attachment; filename=\"'' @ s @ ''\"''"
  by (simp only: content_disposition_def lit_append_fold map_char_of_lit)

lemma py_split_lit: "py_split (of_char c) (lit s) = map lit (py_split c s)"
  by (induction s) (auto simp: lit_def split: list.splits)

lemma py_split_not_Nil: "py_split c s \<noteq> []"
  by (induction s) (auto split: list.splits)

lemma file_extension_lit:
  "filename f = lit s \<Longrightarrow> file_extension f = lit (last (py_split (CHR ''.'') s))"
  unfolding file_extension_def by (simp only: py_split_lit) (simp add: last_map py_split_not_Nil)


section \<open>Facts about the stores\<close>

lemma fold_max_lower: "(a::int) \<le> fold max xs a"
  by (induction xs arbitrary: a) (auto intro: order_trans [OF max.cobounded2])

lemma fold_max_upper: "x \<in> set xs \<Longrightarrow> (x::int) \<le> fold max xs a"
proof (induction xs arbitrary: a)
  case Nil
  then show ?case by simp
next
  case (Cons y ys)
  show ?case
  proof (cases "x = y")
    case True
    have "x \<le> max y a" using True by simp
    also have "\<dots> \<le> fold max ys (max y a)" by (rule fold_max_lower)
    finally show ?thesis by simp
  next
    case False
    with Cons show ?thesis by simp
  qed
qed

lemma find_in_append:
  "find P (xs @ ys) = (case find P xs of None \<Rightarrow> find P ys | Some x \<Rightarrow> Some x)"
  by (induction xs) auto


lemma next_id_fresh: "r \<in> set (rows d) \<Longrightarrow> file_id r < next_id d"
  using fold_max_upper [of "file_id r" "map file_id (rows d)" "seq d"]
  by (simp add: next_id_def)


lemma find_fresh_row:
  assumes "file_id r = next_id d"
  shows "find (\<lambda>x. file_id x = next_id d) (rows d @ [r]) = Some r"
proof -
  have "find (\<lambda>x. file_id x = next_id d) (rows d) = None"
    by (auto simp: find_None_iff dest: next_id_fresh)
  then show ?thesis using assms by (simp add: find_in_append)
qed

lemma app_find_after_delete:
  "find (\<lambda>r. a_id r = i) (filter (\<lambda>r. a_id r \<noteq> i) rs) = None"
  by (simp add: find_None_iff)


lemma stream_one_chunk: "d \<noteq> [] \<Longrightarrow> length d \<le> amt \<Longrightarrow> stream amt d = [d]"
  by (subst stream.simps) (cases d; auto simp: stream.simps [of amt "[]"])

section \<open>Facts about the list requests\<close>

lemma app_rows_metadata_listed: "app_rows_metadata rs = Inr (map app_listed rs)"
  by (induction rs) (simp_all add: app_row_metadata_def AppFileMetadata_def app_listed_def)

lemma rows_metadata_listed: "rows_metadata rs = Inr (map listed rs)"
  by (induction rs) (simp_all add: row_metadata_def FileMetadata_def listed_def)

lemma mset_app_order_by_created_at_desc: "mset (app_order_by_created_at_desc rs) = mset rs"
  by (simp add: app_order_by_created_at_desc_def)

lemma mset_order_by_created_at_desc: "mset (order_by_created_at_desc rs) = mset rs"
  by (simp add: order_by_created_at_desc_def)

lemma app_order_by_created_at_desc_sorted:
  "sorted_wrt (\<lambda>a b. a_created_at b \<le> a_created_at a) (app_order_by_created_at_desc rs)"
proof -
  have "sorted (map a_created_at (sort_key a_created_at (rev rs)))" by (rule sorted_sort_key)
  then have "sorted_wrt (\<lambda>a b. a_created_at a \<le> a_created_at b) (sort_key a_created_at (rev rs))"
    by (simp add: sorted_map)
  then show ?thesis
    by (simp add: app_order_by_created_at_desc_def sorted_wrt_rev)
qed

lemma order_by_created_at_desc_sorted:
  "sorted_wrt (\<lambda>a b. created_at b \<le> created_at a) (order_by_created_at_desc rs)"
proof -
  have "sorted (map created_at (sort_key created_at (rev rs)))" by (rule sorted_sort_key)
  then have "sorted_wrt (\<lambda>a b. created_at a \<le> created_at b) (sort_key created_at (rev rs))"
    by (simp add: sorted_map)
  then show ?thesis
    by (simp add: order_by_created_at_desc_def sorted_wrt_rev)
qed

lemma app_order_by_created_at_desc_Nil: "app_order_by_created_at_desc [] = []"
  by (simp add: app_order_by_created_at_desc_def)

lemma order_by_created_at_desc_Nil: "order_by_created_at_desc [] = []"
  by (simp add: order_by_created_at_desc_def)

lemma app_list_files_quiet:
  "db_fault e = None \<Longrightarrow>
   app_list_files w e =
     (AppListed (map app_listed (app_order_by_created_at_desc (a_rows (db w)))),
      w\<lparr>calls := calls w @ [SqlSelectAll]\<rparr>)"
  by (simp add: app_list_files_def app_sql_select_all_def log_call_def app_rows_metadata_listed)

lemma main_list_files_quiet:
  "db_fault e = None \<Longrightarrow>
   main_list_files_endpoint w e =
     (Listed (map listed (order_by_created_at_desc (rows (db w)))),
      w\<lparr>calls := calls w @ [SqlSelectAll]\<rparr>)"
  by (simp add: main_list_files_endpoint_def list_files_def sql_select_all_def log_call_def
      rows_metadata_listed)



lemma app_two_rows_ordered:
  "app_order_by_created_at_desc [app_hello_row, app_later_row] = [app_later_row, app_hello_row]"
  by (simp add: app_order_by_created_at_desc_def app_hello_row_def app_later_row_def)

lemma two_rows_ordered: "order_by_created_at_desc [hello_row, later_row] = [later_row, hello_row]"
  by (simp add: order_by_created_at_desc_def hello_row_def later_row_def)

section \<open>Facts about the uploads\<close>


text \<open>What an undisturbed upload does in each variant, when its key is new to the
  table.\<close>

lemma app_upload_file_quiet:
  assumes "store_fault e = None" and "db_fault e = None"
    and "app_object_key (uuid4 e) (filename f) \<notin> a_minio_object_key ` set (a_rows (db w))"
  shows "app_upload_file w e f =
     (AppUploaded \<lparr>aur_id = app_next_id (db w), aur_filename = filename f,
                   aur_minio_object_key = app_object_key (uuid4 e) (filename f),
                   aur_message = ''File uploaded successfully''\<rparr>,
      \<lparr>db = \<lparr>a_rows = a_rows (db w) @
                 [app_new_row (db w) e (filename f) (app_object_key (uuid4 e) (filename f))
                    (upload_content_type f) (Some (length (content f)))],
             a_seq = app_next_id (db w)\<rparr>,
       bucket = AList.update (app_object_key (uuid4 e) (filename f))
                  \<lparr>data = content f, obj_content_type = or_octet_stream (upload_content_type f)\<rparr>
                  (bucket w),
       calls = calls w @ [PutObject (app_object_key (uuid4 e) (filename f)),
                          SqlInsert (app_object_key (uuid4 e) (filename f))]\<rparr>)"
  using assms
  by (simp add: app_upload_file_def put_object_def app_sql_insert_def log_call_def Let_def
      app_new_row_def)

lemma main_upload_file_quiet:
  assumes "store_fault e = None" and "db_fault e = None"
    and "service_object_key (uuid4 e) (file_extension f) \<notin> minio_object_key ` set (rows (db w))"
  shows "main_upload_file w e f =
     (HttpError 500 (StrOf ValidationError),
      \<lparr>db = \<lparr>rows = rows (db w) @
                 [new_row (db w) e (filename f) (service_object_key (uuid4 e) (file_extension f))
                    (Some (or_octet_stream (upload_content_type f))) (Some (length (content f)))],
             seq = next_id (db w)\<rparr>,
       bucket = AList.update (service_object_key (uuid4 e) (file_extension f))
                  \<lparr>data = content f, obj_content_type = or_octet_stream (upload_content_type f)\<rparr>
                  (bucket w),
       calls = calls w @ [PutObject (service_object_key (uuid4 e) (file_extension f)),
                          SqlInsert (service_object_key (uuid4 e) (file_extension f)),
                          SqlSelectId (next_id (db w))]\<rparr>)"
proof -
  let ?k = "service_object_key (uuid4 e) (file_extension f)"
  let ?r = "new_row (db w) e (filename f) ?k
      (Some (or_octet_stream (upload_content_type f))) (Some (length (content f)))"
  have "file_id ?r = next_id (db w)" by (simp add: new_row_def)
  then have "find (\<lambda>x. file_id x = next_id (db w)) (rows (db w) @ [?r]) = Some ?r"
    by (rule find_fresh_row)
  then show ?thesis
    using assms
    by (simp add: main_upload_file_def upload_file_to_minio_def add_file_metadata_def
        get_file_metadata_def sql_select_id_def FileMetadata_def put_object_def sql_insert_def
        log_call_def Let_def main_error_def new_row_def)
qed

lemma blob_after_app_upload:
  assumes "store_fault e = None"
  shows "map_of (bucket (snd (app_upload_file w e f))) (app_object_key (uuid4 e) (filename f)) =
     Some \<lparr>data = content f, obj_content_type = or_octet_stream (upload_content_type f)\<rparr>"
  using assms
  by (auto simp: app_upload_file_def put_object_def app_sql_insert_def log_call_def Let_def
      update_conv' split: option.splits)

lemma blob_after_main_upload:
  assumes "store_fault e = None"
  shows "map_of (bucket (snd (main_upload_file w e f)))
       (service_object_key (uuid4 e) (file_extension f)) =
     Some \<lparr>data = content f, obj_content_type = or_octet_stream (upload_content_type f)\<rparr>"
  using assms
  by (auto simp: main_upload_file_def upload_file_to_minio_def add_file_metadata_def
      get_file_metadata_def sql_select_id_def FileMetadata_def FileUploadResponse_def
      put_object_def sql_insert_def log_call_def Let_def update_conv'
      split: option.splits sum.splits)

section \<open>What the handlers of \<open>main.py\<close> never answer\<close>

text \<open>
  \<open>get_file_metadata\<close> returns \<open>None\<close> or raises, and \<open>main.py\<close> turns both
  into status 500. So \<open>download_file\<close> never reaches \<open>download_file_from_minio\<close>,
  \<open>delete_file\<close> never reaches \<open>delete_file_from_minio\<close> or
  \<open>delete_file_metadata\<close>, and \<open>upload_file\<close>, whose \<open>add_file_metadata\<close> ends
  in \<open>get_file_metadata\<close>, never answers with its response model.
\<close>

lemma get_file_metadata_never_a_model: "fst (get_file_metadata w e i) \<noteq> Inr (Some m)"
  by (auto simp: get_file_metadata_def sql_select_id_def FileMetadata_def Let_def
      split: option.splits)

lemma main_download_file_always_500:
  "\<exists>d. main_download_file w e i = (HttpError 500 d, log_call (SqlSelectId i) w)"
  by (auto simp: main_download_file_def get_file_metadata_def sql_select_id_def
      FileMetadata_def main_error_def Let_def split: option.splits)

lemma main_delete_file_always_500:
  "\<exists>d. main_delete_file w e i = (HttpError 500 d, log_call (SqlSelectId i) w)"
  by (auto simp: main_delete_file_def get_file_metadata_def sql_select_id_def
      FileMetadata_def main_error_def Let_def split: option.splits)

lemma main_upload_file_always_500: "\<exists>d. fst (main_upload_file w e f) = HttpError 500 d"
  by (auto simp: main_upload_file_def upload_file_to_minio_def add_file_metadata_def
      get_file_metadata_def sql_select_id_def FileMetadata_def FileUploadResponse_def
      put_object_def sql_insert_def log_call_def Let_def main_error_def
      split: option.splits sum.splits prod.splits)

section \<open>The scenarios, evaluated\<close>

lemma quiet_facts:
  "store_fault quiet = None" "db_fault quiet = None" "uuid4 quiet = ''u2''"
  "now quiet = ''2024-01-02 00:00:00''"
  by (simp_all add: quiet_def)

lemma hello_upload_facts:
  "filename hello_upload = lit ''hello.txt''" "content hello_upload = [104, 105]"
  "upload_content_type hello_upload = Some ''text/plain''"
  "file_extension hello_upload = lit ''txt''"
  by (simp_all add: hello_upload_def file_extension_lit)

lemma bare_upload_facts:
  "filename bare_upload = lit ''notes''" "content bare_upload = [104, 105]"
  "upload_content_type bare_upload = None"
  "file_extension bare_upload = lit ''notes''"
  by (simp_all add: bare_upload_def file_extension_lit)

lemma key_facts:
  "app_object_key ''u2'' (lit ''hello.txt'') = lit ''u2_hello.txt''"
  "app_object_key ''u3'' (lit ''hello.txt'') = lit ''u3_hello.txt''"
  "app_object_key ''u2'' (lit ''notes'') = lit ''u2_notes''"
  "app_object_key ''u2'' cyrillic_name = lit ''u2_'' @ cyrillic_name"
  "service_object_key ''u2'' (lit ''txt'') = lit ''u2_file.txt''"
  "service_object_key ''u3'' (lit ''txt'') = lit ''u3_file.txt''"
  "service_object_key ''u2'' (lit ''notes'') = lit ''u2_file.notes''"
  by (simp_all add: app_object_key_def service_object_key_def lit_append_fold
      flip: append_assoc)

lemma or_octet_stream_facts:
  "or_octet_stream (Some ''text/plain'') = ''text/plain''"
  "or_octet_stream None = ''application/octet-stream''"
  by (simp_all add: or_octet_stream_def)

lemma hello_app_upload:
  "app_upload_file app_empty_world quiet hello_upload = (AppUploaded hello_receipt, hello_stored)"
proof -
  have "app_object_key (uuid4 quiet) (filename hello_upload)
      \<notin> a_minio_object_key ` set (a_rows (db app_empty_world))"
    by (simp add: app_empty_world_def)
  from app_upload_file_quiet [OF quiet_facts(1,2) this] show ?thesis
    by (simp add: quiet_facts hello_upload_facts key_facts or_octet_stream_facts
        app_new_row_def app_next_id_def app_empty_world_def hello_receipt_def hello_stored_def)
qed




lemma hello_main_upload:
  "main_upload_file empty_world quiet hello_upload =
     (HttpError 500 (StrOf ValidationError), hello_layered)"
proof -
  have "service_object_key (uuid4 quiet) (file_extension hello_upload)
      \<notin> minio_object_key ` set (rows (db empty_world))"
    by (simp add: empty_world_def)
  from main_upload_file_quiet [OF quiet_facts(1,2) this] show ?thesis
    by (simp add: quiet_facts hello_upload_facts key_facts or_octet_stream_facts
        new_row_def next_id_def empty_world_def hello_layered_def)
qed

section \<open>Facts about corresponding tables\<close>

lemma same_file_insort:
  assumes "same_file x y" and "list_all2 same_file xs ys"
  shows "list_all2 same_file (insort_key a_created_at x xs) (insort_key created_at y ys)"
  using assms(2,1)
  by (induction rule: list_all2_induct) (auto simp: same_file_def)

lemma same_file_sort:
  assumes "list_all2 same_file xs ys"
  shows "list_all2 same_file (sort_key a_created_at xs) (sort_key created_at ys)"
  using assms
  by (induction rule: list_all2_induct) (simp_all add: same_file_insort)

lemma same_file_order:
  assumes "list_all2 same_file xs ys"
  shows "list_all2 same_file (app_order_by_created_at_desc xs) (order_by_created_at_desc ys)"
  using assms
  by (simp add: app_order_by_created_at_desc_def order_by_created_at_desc_def same_file_sort)

lemma same_model_listed: "same_file ra rm \<Longrightarrow> same_model (app_listed ra) (listed rm)"
  by (simp add: same_file_def same_model_def app_listed_def listed_def)

lemma same_models_listed:
  assumes "list_all2 same_file xs ys"
  shows "list_all2 same_model (map app_listed xs) (map listed ys)"
  using assms
  by (induction rule: list_all2_induct) (simp_all add: same_model_listed)

lemma same_file_ids: "list_all2 same_file xs ys \<Longrightarrow> map a_id xs = map file_id ys"
  by (induction rule: list_all2_induct) (simp_all add: same_file_def)

lemma same_files_next_id:
  assumes "same_files da dm"
  shows "app_next_id da = next_id dm"
proof -
  have "map a_id (a_rows da) = map file_id (rows dm)" and "a_seq da = seq dm"
    using assms by (simp_all add: same_files_def same_file_ids)
  then show ?thesis by (simp add: app_next_id_def next_id_def)
qed

section \<open>Round trip of the content\<close>




section \<open>The layered lookup raises for every row it finds\<close>

text \<open>
  C5. In the layered variant \<open>get_file_metadata\<close> raises a validation error for
  every id whose row exists: it builds \<open>FileMetadata\<close> without the required
  \<open>created_at\<close>. So \<open>download_file\<close> and \<open>delete_file\<close> of \<open>main.py\<close> answer
  every existing record with an error (status 500), after the one \<open>SELECT\<close> and
  with both stores as they were.
\<close>

theorem layered_lookup_of_existing_row_raises:
  assumes "db_fault e = None"
    and "find (\<lambda>r. file_id r = i) (rows (db w)) = Some r"
  shows "get_file_metadata w e i = (Inl ValidationError, log_call (SqlSelectId i) w)
       \<and> main_download_file w e i = (HttpError 500 (StrOf ValidationError), log_call (SqlSelectId i) w)
       \<and> main_delete_file w e i = (HttpError 500 (StrOf ValidationError), log_call (SqlSelectId i) w)"
  using assms
  by (simp add: get_file_metadata_def main_download_file_def main_delete_file_def
      sql_select_id_def FileMetadata_def main_error_def log_call_def)

theorem layered_lookup_of_existing_row_raises_witness:
  "db_fault quiet = None
   \<and> find (\<lambda>r. file_id r = 1) (rows (db hello_world)) = Some hello_row
   \<and> get_file_metadata hello_world quiet 1 = (Inl ValidationError, log_call (SqlSelectId 1) hello_world)
   \<and> status_code (fst (main_download_file hello_world quiet 1)) = 500
   \<and> status_code (fst (main_delete_file hello_world quiet 1)) = 500"
  using layered_lookup_of_existing_row_raises
    [where e = quiet and i = 1 and w = hello_world and r = hello_row]
  by (simp add: quiet_def hello_world_def hello_row_def log_call_def)

section \<open>Upload: the blob is written before the row\<close>

text \<open>
  C2. In both variants an upload calls \<open>put_object\<close> first. When the put raises,
  no \<open>INSERT\<close> is issued and both stores are as they were. When the put returned
  and the \<open>INSERT\<close> raises, the answer is an error, the table is unchanged, the blob
  stays in the bucket and no \<open>remove_object\<close> is issued. Whenever an upload changed
  the table, the bucket holds the content under the generated key and the
  \<open>INSERT\<close> came after the put.
\<close>

theorem upload_writes_the_blob_before_the_row:
  fixes wa :: "app_database world" and wm :: "database world" and e :: env and f :: upload
  defines "ka \<equiv> app_object_key (uuid4 e) (filename f)"
    and "km \<equiv> service_object_key (uuid4 e) (file_extension f)"
    and "ct \<equiv> or_octet_stream (upload_content_type f)"
    and "sz \<equiv> Some (length (content f))"
  shows "(store_fault e = Some x \<longrightarrow>
            app_upload_file wa e f = (app_upload_error x, wa\<lparr>calls := calls wa @ [PutObject ka]\<rparr>)
          \<and> main_upload_file wm e f = (main_error x, wm\<lparr>calls := calls wm @ [PutObject km]\<rparr>))
       \<and> (store_fault e = None \<longrightarrow>
            fst (app_sql_insert wa e (filename f) ka (upload_content_type f) sz) = Inl y \<longrightarrow>
            app_upload_file wa e f =
              (app_upload_error y,
               \<lparr>db = db wa,
                bucket = AList.update ka \<lparr>data = content f, obj_content_type = ct\<rparr> (bucket wa),
                calls = calls wa @ [PutObject ka, SqlInsert ka]\<rparr>))
       \<and> (store_fault e = None \<longrightarrow>
            fst (sql_insert wm e (filename f) km (Some ct) sz) = Inl y \<longrightarrow>
            main_upload_file wm e f =
              (main_error y,
               \<lparr>db = db wm,
                bucket = AList.update km \<lparr>data = content f, obj_content_type = ct\<rparr> (bucket wm),
                calls = calls wm @ [PutObject km, SqlInsert km]\<rparr>))
       \<and> (db (snd (app_upload_file wa e f)) \<noteq> db wa \<longrightarrow>
            map_of (bucket (snd (app_upload_file wa e f))) ka =
              Some \<lparr>data = content f, obj_content_type = ct\<rparr>
          \<and> calls (snd (app_upload_file wa e f)) = calls wa @ [PutObject ka, SqlInsert ka])
       \<and> (db (snd (main_upload_file wm e f)) \<noteq> db wm \<longrightarrow>
            map_of (bucket (snd (main_upload_file wm e f))) km =
              Some \<lparr>data = content f, obj_content_type = ct\<rparr>
          \<and> calls (snd (main_upload_file wm e f)) =
              calls wm @ [PutObject km, SqlInsert km, SqlSelectId (next_id (db wm))])"
proof (intro conjI impI)
  assume "store_fault e = Some x"
  then show "app_upload_file wa e f = (app_upload_error x, wa\<lparr>calls := calls wa @ [PutObject ka]\<rparr>)"
    by (simp add: app_upload_file_def put_object_def log_call_def ka_def)
next
  assume "store_fault e = Some x"
  then show "main_upload_file wm e f = (main_error x, wm\<lparr>calls := calls wm @ [PutObject km]\<rparr>)"
    by (simp add: main_upload_file_def upload_file_to_minio_def put_object_def log_call_def km_def)
next
  assume "store_fault e = None"
    and "fst (app_sql_insert wa e (filename f) ka (upload_content_type f) sz) = Inl y"
  then show "app_upload_file wa e f =
      (app_upload_error y,
       \<lparr>db = db wa,
        bucket = AList.update ka \<lparr>data = content f, obj_content_type = ct\<rparr> (bucket wa),
        calls = calls wa @ [PutObject ka, SqlInsert ka]\<rparr>)"
    by (auto simp: app_upload_file_def put_object_def app_sql_insert_def log_call_def Let_def
        ka_def ct_def sz_def split: option.splits if_splits)
next
  assume "store_fault e = None"
    and "fst (sql_insert wm e (filename f) km (Some ct) sz) = Inl y"
  then show "main_upload_file wm e f =
      (main_error y,
       \<lparr>db = db wm,
        bucket = AList.update km \<lparr>data = content f, obj_content_type = ct\<rparr> (bucket wm),
        calls = calls wm @ [PutObject km, SqlInsert km]\<rparr>)"
    by (auto simp: main_upload_file_def upload_file_to_minio_def add_file_metadata_def
        put_object_def sql_insert_def log_call_def Let_def
        km_def ct_def sz_def split: option.splits if_splits)
next
  assume "db (snd (app_upload_file wa e f)) \<noteq> db wa"
  then show "map_of (bucket (snd (app_upload_file wa e f))) ka =
      Some \<lparr>data = content f, obj_content_type = ct\<rparr>"
    by (auto simp: app_upload_file_def put_object_def app_sql_insert_def log_call_def Let_def
        ka_def ct_def update_conv' split: option.splits if_splits)
next
  assume "db (snd (app_upload_file wa e f)) \<noteq> db wa"
  then show "calls (snd (app_upload_file wa e f)) = calls wa @ [PutObject ka, SqlInsert ka]"
    by (auto simp: app_upload_file_def put_object_def app_sql_insert_def log_call_def Let_def
        ka_def ct_def split: option.splits if_splits)
next
  assume "db (snd (main_upload_file wm e f)) \<noteq> db wm"
  then show "map_of (bucket (snd (main_upload_file wm e f))) km =
      Some \<lparr>data = content f, obj_content_type = ct\<rparr>"
    by (auto simp: main_upload_file_def upload_file_to_minio_def add_file_metadata_def
        get_file_metadata_def sql_select_id_def FileMetadata_def FileUploadResponse_def
        put_object_def sql_insert_def log_call_def Let_def
        km_def ct_def update_conv' split: option.splits if_splits)
next
  assume "db (snd (main_upload_file wm e f)) \<noteq> db wm"
  then show "calls (snd (main_upload_file wm e f)) =
      calls wm @ [PutObject km, SqlInsert km, SqlSelectId (next_id (db wm))]"
    by (auto simp: main_upload_file_def upload_file_to_minio_def add_file_metadata_def
        get_file_metadata_def sql_select_id_def FileMetadata_def FileUploadResponse_def
        put_object_def sql_insert_def log_call_def Let_def new_row_def
        km_def ct_def split: option.splits if_splits)
qed

theorem upload_writes_the_blob_before_the_row_witness:
  "store_fault store_down = Some MaxRetryError
   \<and> app_upload_file app_empty_world store_down hello_upload =
       (HttpError 500 (Prefixed ''Upload error: '' MaxRetryError),
        \<lparr>db = \<lparr>a_rows = [], a_seq = 0\<rparr>, bucket = [],
         calls = [PutObject (lit ''u2_hello.txt'')]\<rparr>)
   \<and> main_upload_file empty_world store_down hello_upload =
       (HttpError 500 (StrOf MaxRetryError),
        \<lparr>db = \<lparr>rows = [], seq = 0\<rparr>, bucket = [], calls = [PutObject (lit ''u2_file.txt'')]\<rparr>)
   \<and> store_fault db_down = None
   \<and> fst (app_sql_insert app_empty_world db_down (lit ''hello.txt'') (lit ''u2_hello.txt'')
          (Some ''text/plain'') (Some 2)) = Inl OperationalError
   \<and> app_upload_file app_empty_world db_down hello_upload =
       (HttpError 500 (Prefixed ''Upload error: '' OperationalError),
        \<lparr>db = \<lparr>a_rows = [], a_seq = 0\<rparr>,
         bucket = [(lit ''u2_hello.txt'', \<lparr>data = [104, 105], obj_content_type = ''text/plain''\<rparr>)],
         calls = [PutObject (lit ''u2_hello.txt''), SqlInsert (lit ''u2_hello.txt'')]\<rparr>)
   \<and> fst (sql_insert empty_world db_down (lit ''hello.txt'') (lit ''u2_file.txt'')
          (Some ''text/plain'') (Some 2)) = Inl OperationalError
   \<and> main_upload_file empty_world db_down hello_upload =
       (HttpError 500 (StrOf OperationalError),
        \<lparr>db = \<lparr>rows = [], seq = 0\<rparr>,
         bucket = [(lit ''u2_file.txt'', \<lparr>data = [104, 105], obj_content_type = ''text/plain''\<rparr>)],
         calls = [PutObject (lit ''u2_file.txt''), SqlInsert (lit ''u2_file.txt'')]\<rparr>)
   \<and> db (snd (app_upload_file app_empty_world quiet hello_upload)) \<noteq> db app_empty_world
   \<and> calls (snd (app_upload_file app_empty_world quiet hello_upload)) =
       [PutObject (lit ''u2_hello.txt''), SqlInsert (lit ''u2_hello.txt'')]
   \<and> db (snd (main_upload_file empty_world quiet hello_upload)) \<noteq> db empty_world
   \<and> calls (snd (main_upload_file empty_world quiet hello_upload)) =
       [PutObject (lit ''u2_file.txt''), SqlInsert (lit ''u2_file.txt''), SqlSelectId 1]"
proof -
  have ins: "fst (app_sql_insert app_empty_world db_down (lit ''hello.txt'') (lit ''u2_hello.txt'')
        (Some ''text/plain'') (Some 2)) = Inl OperationalError"
     "fst (sql_insert empty_world db_down (lit ''hello.txt'') (lit ''u2_file.txt'')
        (Some ''text/plain'') (Some 2)) = Inl OperationalError"
    by (simp_all add: app_sql_insert_def sql_insert_def db_down_def quiet_def log_call_def)
  have a: "db (snd (app_upload_file app_empty_world quiet hello_upload)) \<noteq> db app_empty_world"
    unfolding hello_app_upload by (simp add: hello_stored_def app_empty_world_def)
  have m: "db (snd (main_upload_file empty_world quiet hello_upload)) \<noteq> db empty_world"
    unfolding hello_main_upload by (simp add: hello_layered_def empty_world_def)
  note t = upload_writes_the_blob_before_the_row [where wa = app_empty_world
      and wm = empty_world and f = hello_upload]
  have u: "uuid4 store_down = ''u2''" "uuid4 db_down = ''u2''"
      "store_fault store_down = Some MaxRetryError" "store_fault db_down = None"
    by (simp_all add: store_down_def db_down_def quiet_def)
  have w: "db app_empty_world = \<lparr>a_rows = [], a_seq = 0\<rparr>" "bucket app_empty_world = []"
      "calls app_empty_world = []"
      "app_empty_world\<lparr>calls := cs\<rparr> = \<lparr>db = \<lparr>a_rows = [], a_seq = 0\<rparr>, bucket = [], calls = cs\<rparr>"
      "db empty_world = \<lparr>rows = [], seq = 0\<rparr>" "bucket empty_world = []"
      "calls empty_world = []"
      "empty_world\<lparr>calls := cs\<rparr> = \<lparr>db = \<lparr>rows = [], seq = 0\<rparr>, bucket = [], calls = cs\<rparr>" for cs
    by (simp_all add: app_empty_world_def empty_world_def)
  have down: "app_upload_file app_empty_world store_down hello_upload =
       (HttpError 500 (Prefixed ''Upload error: '' MaxRetryError),
        \<lparr>db = \<lparr>a_rows = [], a_seq = 0\<rparr>, bucket = [],
         calls = [PutObject (lit ''u2_hello.txt'')]\<rparr>)
     \<and> main_upload_file empty_world store_down hello_upload =
       (HttpError 500 (StrOf MaxRetryError),
        \<lparr>db = \<lparr>rows = [], seq = 0\<rparr>, bucket = [], calls = [PutObject (lit ''u2_file.txt'')]\<rparr>)"
    using t [where e = store_down and x = MaxRetryError, THEN conjunct1]
    by (simp add: u hello_upload_facts key_facts w app_upload_error_def main_error_def)
  have dbd: "app_upload_file app_empty_world db_down hello_upload =
       (HttpError 500 (Prefixed ''Upload error: '' OperationalError),
        \<lparr>db = \<lparr>a_rows = [], a_seq = 0\<rparr>,
         bucket = [(lit ''u2_hello.txt'', \<lparr>data = [104, 105], obj_content_type = ''text/plain''\<rparr>)],
         calls = [PutObject (lit ''u2_hello.txt''), SqlInsert (lit ''u2_hello.txt'')]\<rparr>)
     \<and> main_upload_file empty_world db_down hello_upload =
       (HttpError 500 (StrOf OperationalError),
        \<lparr>db = \<lparr>rows = [], seq = 0\<rparr>,
         bucket = [(lit ''u2_file.txt'', \<lparr>data = [104, 105], obj_content_type = ''text/plain''\<rparr>)],
         calls = [PutObject (lit ''u2_file.txt''), SqlInsert (lit ''u2_file.txt'')]\<rparr>)"
    using t [where e = db_down and y = OperationalError, THEN conjunct2] ins
    by (simp add: u hello_upload_facts key_facts or_octet_stream_facts w app_upload_error_def
        main_error_def numeral_2_eq_2)
  have ok: "calls (snd (app_upload_file app_empty_world quiet hello_upload)) =
       [PutObject (lit ''u2_hello.txt''), SqlInsert (lit ''u2_hello.txt'')]
     \<and> calls (snd (main_upload_file empty_world quiet hello_upload)) =
       [PutObject (lit ''u2_file.txt''), SqlInsert (lit ''u2_file.txt''), SqlSelectId 1]"
    using t [where e = quiet, THEN conjunct2, THEN conjunct2, THEN conjunct2] a m
    by (simp add: quiet_facts hello_upload_facts key_facts w next_id_def)
  from down dbd ok ins a m u show ?thesis by simp
qed

section \<open>Delete: a failed removal of the blob\<close>

text \<open>
  C3, as the specification states it, fails in \<open>app.py\<close>: when the object store
  reports the key absent, \<open>remove_object\<close> raises \<open>S3Error\<close>, the handler
  answers 500 and the row stays. Here the row of \<open>hello.txt\<close> has no blob and the
  provider reports \<open>NoSuchKey\<close>.
\<close>

theorem delete_of_reported_absent_blob_fails:
  "app_delete_file app_orphan_world key_reported_absent 1 =
     (HttpError 500 (Prefixed ''MinIO error: '' (S3Error ''NoSuchKey'')),
      \<lparr>db = \<lparr>a_rows = [app_hello_row], a_seq = 1\<rparr>, bucket = [],
       calls = [SqlSelectId 1, RemoveObject (lit ''u1_hello.txt'')]\<rparr>)"
  by (simp add: app_delete_file_def app_delete_key_def app_sql_select_id_def remove_object_def
      log_call_def app_orphan_world_def key_reported_absent_def quiet_def app_hello_row_def
      app_error_def)

text \<open>
  C3, amended. For a delete in \<open>app.py\<close> whose row exists, the removal of the blob is
  attempted first. Any exception of \<open>remove_object\<close>, an \<open>S3Error\<close> of any code
  (the key reported absent too) or a transport failure, ends the handler with status 500
  before the \<open>DELETE\<close>: the table and the bucket are as they were. When
  \<open>remove_object\<close> returns, also for a key the bucket does not hold, the row is
  deleted and the delete succeeds.
\<close>

theorem delete_aborts_on_any_removal_failure:
  assumes "db_fault e = None"
    and "find (\<lambda>r. a_id r = i) (a_rows (db w)) = Some r"
  shows "(store_fault e = Some (S3Error c) \<longrightarrow>
            app_delete_file w e i =
              (HttpError 500 (Prefixed ''MinIO error: '' (S3Error c)),
               w\<lparr>calls := calls w @ [SqlSelectId i, RemoveObject (a_minio_object_key r)]\<rparr>))
       \<and> (store_fault e = Some MaxRetryError \<longrightarrow>
            app_delete_file w e i =
              (HttpError 500 (Prefixed ''Delete error: '' MaxRetryError),
               w\<lparr>calls := calls w @ [SqlSelectId i, RemoveObject (a_minio_object_key r)]\<rparr>))
       \<and> (store_fault e = None \<longrightarrow>
            app_delete_file w e i =
              (Deleted i,
               \<lparr>db = (db w)\<lparr>a_rows := filter (\<lambda>r. a_id r \<noteq> i) (a_rows (db w))\<rparr>,
                bucket = AList.delete (a_minio_object_key r) (bucket w),
                calls = calls w @ [SqlSelectId i, RemoveObject (a_minio_object_key r), SqlDelete i]\<rparr>))"
  using assms
  by (simp add: app_delete_file_def app_delete_key_def app_sql_select_id_def remove_object_def
      app_sql_delete_def log_call_def app_error_def)

theorem delete_aborts_on_any_removal_failure_witness:
  "db_fault key_reported_absent = None \<and> db_fault store_down = None \<and> db_fault quiet = None
   \<and> find (\<lambda>r. a_id r = 1) (a_rows (db app_orphan_world)) = Some app_hello_row
   \<and> store_fault key_reported_absent = Some (S3Error ''NoSuchKey'')
   \<and> status_code (fst (app_delete_file app_orphan_world key_reported_absent 1)) = 500
   \<and> a_rows (db (snd (app_delete_file app_orphan_world key_reported_absent 1))) = [app_hello_row]
   \<and> store_fault store_down = Some MaxRetryError
   \<and> status_code (fst (app_delete_file app_orphan_world store_down 1)) = 500
   \<and> a_rows (db (snd (app_delete_file app_orphan_world store_down 1))) = [app_hello_row]
   \<and> store_fault quiet = None
   \<and> fst (app_delete_file app_orphan_world quiet 1) = Deleted 1
   \<and> a_rows (db (snd (app_delete_file app_orphan_world quiet 1))) = []
   \<and> calls (snd (app_delete_file app_orphan_world quiet 1)) =
       [SqlSelectId 1, RemoveObject (lit ''u1_hello.txt''), SqlDelete 1]"
proof -
  have f: "find (\<lambda>r. a_id r = 1) (a_rows (db app_orphan_world)) = Some app_hello_row"
    by (simp add: app_orphan_world_def app_hello_row_def)
  have q: "db_fault key_reported_absent = None" "db_fault store_down = None" "db_fault quiet = None"
    "store_fault key_reported_absent = Some (S3Error ''NoSuchKey'')"
    "store_fault store_down = Some MaxRetryError" "store_fault quiet = None"
    by (simp_all add: key_reported_absent_def store_down_def quiet_def)
  have w: "a_rows (db app_orphan_world) = [app_hello_row]" "calls app_orphan_world = []"
    "a_minio_object_key app_hello_row = lit ''u1_hello.txt''" "a_id app_hello_row = 1"
    by (simp_all add: app_orphan_world_def app_hello_row_def)
  from delete_aborts_on_any_removal_failure [OF q(1) f, where c = "''NoSuchKey''"]
    delete_aborts_on_any_removal_failure [OF q(2) f]
    delete_aborts_on_any_removal_failure [OF q(3) f]
  show ?thesis by (simp add: q f w)
qed

section \<open>Download: the two failures\<close>

text \<open>In \<open>app.py\<close> the two failures of a download are told apart.\<close>

lemma app_download_failures:
  assumes "db_fault e = None" and "store_fault e = None"
  shows "(find (\<lambda>r. a_id r = i) (a_rows (db w)) = None \<longrightarrow>
            fst (app_download_file w e i) = HttpError 404 (Plain ''File not found''))
       \<and> (find (\<lambda>r. a_id r = i) (a_rows (db w)) = Some r \<longrightarrow>
            map_of (bucket w) (a_minio_object_key r) = None \<longrightarrow>
            fst (app_download_file w e i) =
              HttpError 500 (Prefixed ''MinIO error: '' (S3Error ''NoSuchKey'')))"
  using assms
  by (simp add: app_download_file_def app_download_row_def app_sql_select_id_def get_object_def
      log_call_def app_error_def)

text \<open>
  C4 holds in \<open>app.py\<close> and fails in \<open>main.py\<close>: there the \<open>HTTPException\<close>
  with status 404 that \<open>download_file\<close> raises for an id without a row is caught by
  the handler's own \<open>except Exception\<close> and answered with status 500. On the empty
  table of each variant, for id 1:
\<close>

theorem layered_download_of_missing_id_answers_500:
  "main_download_file empty_world quiet 1 =
     (HttpError 500 (StrOf (HTTPException 404 ''File not found'')),
      \<lparr>db = \<lparr>rows = [], seq = 0\<rparr>, bucket = [], calls = [SqlSelectId 1]\<rparr>)
   \<and> app_download_file app_empty_world quiet 1 =
     (HttpError 404 (Plain ''File not found''),
      \<lparr>db = \<lparr>a_rows = [], a_seq = 0\<rparr>, bucket = [], calls = [SqlSelectId 1]\<rparr>)"
  by (simp add: main_download_file_def get_file_metadata_def app_download_file_def
      sql_select_id_def app_sql_select_id_def log_call_def empty_world_def app_empty_world_def
      quiet_def main_error_def app_error_def)

section \<open>Delete: twice, and a row that vanished\<close>

text \<open>In \<open>app.py\<close>, deleting the same id twice makes the first call succeed and the
  second fail at the lookup with status 404; and from the object key on, where the row
  count of the \<open>DELETE\<close> is not read, a delete succeeds also when the row is gone.\<close>

lemma app_delete_twice:
  assumes "db_fault e = None" and "store_fault e = None" and "db_fault e' = None"
  shows "(find (\<lambda>r. a_id r = i) (a_rows (db w)) = Some r \<longrightarrow>
            fst (app_delete_file w e i) = Deleted i
          \<and> fst (app_delete_file (snd (app_delete_file w e i)) e' i) =
              HttpError 404 (Plain ''File not found''))
       \<and> fst (app_delete_key w e i k) = Deleted i"
  using assms
  by (simp add: app_delete_file_def app_delete_key_def app_sql_select_id_def remove_object_def
      app_sql_delete_def log_call_def app_error_def app_find_after_delete)

text \<open>
  C6 holds in \<open>app.py\<close> and fails in \<open>main.py\<close>: there the first delete of an
  existing record does not succeed. After the upload of \<open>hello.txt\<close> into the empty
  stores of each variant, \<open>main.py\<close> answers the delete of id 1 with status 500 and
  keeps its row and its blob, where \<open>app.py\<close> deletes and answers the second delete
  with status 404.
\<close>

theorem layered_first_delete_answers_500:
  "snd (main_upload_file empty_world quiet hello_upload) = hello_layered
   \<and> main_delete_file hello_layered quiet 1 =
       (HttpError 500 (StrOf ValidationError),
        hello_layered\<lparr>calls := calls hello_layered @ [SqlSelectId 1]\<rparr>)
   \<and> snd (app_upload_file app_empty_world quiet hello_upload) = hello_stored
   \<and> fst (app_delete_file hello_stored quiet 1) = Deleted 1
   \<and> fst (app_delete_file (snd (app_delete_file hello_stored quiet 1)) quiet 1) =
       HttpError 404 (Plain ''File not found'')"
proof -
  have "main_delete_file hello_layered quiet 1 =
       (HttpError 500 (StrOf ValidationError),
        hello_layered\<lparr>calls := calls hello_layered @ [SqlSelectId 1]\<rparr>)"
    by (simp add: main_delete_file_def get_file_metadata_def sql_select_id_def
        FileMetadata_def main_error_def log_call_def hello_layered_def quiet_def)
  moreover have "find (\<lambda>r. a_id r = 1) (a_rows (db hello_stored)) =
      Some \<lparr>a_id = 1, a_filename = lit ''hello.txt'',
            a_minio_object_key = lit ''u2_hello.txt'', a_content_type = Some ''text/plain'',
            a_size = Some 2, a_created_at = ''2024-01-02 00:00:00''\<rparr>"
    by (simp add: hello_stored_def)
  ultimately show ?thesis
    using app_delete_twice [OF quiet_facts(2,1,2), of 1 hello_stored]
    by (simp add: hello_main_upload hello_app_upload)
qed

section \<open>List\<close>

text \<open>
  C8. In both variants a list request that sqlite3 does not disturb answers with the
  models of all rows of the table (the same rows, as a multiset), ordered by
  \<open>created_at\<close> from the newest to the oldest; it issues the one \<open>SELECT\<close> and
  no call to the object store, and leaves the bucket and the table as they were; on an
  empty table the answer is the empty list, not an error.
\<close>

theorem list_returns_all_rows_newest_first:
  assumes "db_fault e = None"
  shows "app_list_files wa e =
           (AppListed (map app_listed (app_order_by_created_at_desc (a_rows (db wa)))),
            wa\<lparr>calls := calls wa @ [SqlSelectAll]\<rparr>)
       \<and> main_list_files_endpoint wm e =
           (Listed (map listed (order_by_created_at_desc (rows (db wm)))),
            wm\<lparr>calls := calls wm @ [SqlSelectAll]\<rparr>)
       \<and> mset (app_order_by_created_at_desc (a_rows (db wa))) = mset (a_rows (db wa))
       \<and> mset (order_by_created_at_desc (rows (db wm))) = mset (rows (db wm))
       \<and> sorted_wrt (\<lambda>a b. a_created_at b \<le> a_created_at a)
           (app_order_by_created_at_desc (a_rows (db wa)))
       \<and> sorted_wrt (\<lambda>a b. created_at b \<le> created_at a) (order_by_created_at_desc (rows (db wm)))
       \<and> (a_rows (db wa) = [] \<longrightarrow> fst (app_list_files wa e) = AppListed [])
       \<and> (rows (db wm) = [] \<longrightarrow> fst (main_list_files_endpoint wm e) = Listed [])"
  using assms
  by (simp add: app_list_files_quiet main_list_files_quiet mset_app_order_by_created_at_desc
      mset_order_by_created_at_desc app_order_by_created_at_desc_sorted
      order_by_created_at_desc_sorted app_order_by_created_at_desc_Nil
      order_by_created_at_desc_Nil)

theorem list_returns_all_rows_newest_first_witness:
  "db_fault quiet = None
   \<and> fst (app_list_files app_two_rows_world quiet) =
       AppListed [app_listed app_later_row, app_listed app_hello_row]
   \<and> fst (main_list_files_endpoint two_rows_world quiet) = Listed [listed later_row, listed hello_row]
   \<and> bucket (snd (app_list_files app_two_rows_world quiet)) = bucket app_two_rows_world
   \<and> calls (snd (app_list_files app_two_rows_world quiet)) = [SqlSelectAll]
   \<and> calls (snd (main_list_files_endpoint two_rows_world quiet)) = [SqlSelectAll]
   \<and> a_created_at app_hello_row \<le> a_created_at app_later_row
   \<and> created_at hello_row \<le> created_at later_row
   \<and> a_rows (db app_empty_world) = [] \<and> rows (db empty_world) = []
   \<and> app_list_files app_empty_world quiet =
       (AppListed [], app_empty_world\<lparr>calls := [SqlSelectAll]\<rparr>)
   \<and> main_list_files_endpoint empty_world quiet = (Listed [], empty_world\<lparr>calls := [SqlSelectAll]\<rparr>)"
proof -
  have r: "a_rows (db app_two_rows_world) = [app_hello_row, app_later_row]"
      "calls app_two_rows_world = []" "a_rows (db app_empty_world) = []"
      "calls app_empty_world = []"
      "rows (db two_rows_world) = [hello_row, later_row]" "calls two_rows_world = []"
      "rows (db empty_world) = []" "calls empty_world = []"
    by (simp_all add: app_two_rows_world_def app_empty_world_def two_rows_world_def
        empty_world_def)
  have c: "a_created_at app_hello_row \<le> a_created_at app_later_row"
      "created_at hello_row \<le> created_at later_row"
    by (simp_all add: app_hello_row_def app_later_row_def hello_row_def later_row_def)
  from list_returns_all_rows_newest_first [OF quiet_facts(2), of app_two_rows_world two_rows_world]
    list_returns_all_rows_newest_first [OF quiet_facts(2), of app_empty_world empty_world]
  show ?thesis
    by (simp add: quiet_facts r c app_two_rows_ordered two_rows_ordered
        app_order_by_created_at_desc_Nil order_by_created_at_desc_Nil)
qed

section \<open>Upload: exactly one new record\<close>



section \<open>The default content type\<close>

text \<open>
  C9. An upload without a content type writes the blob with the content type
  \<open>application/octet-stream\<close>, in both variants. In \<open>app.py\<close> the download of a
  record whose stored \<open>content_type\<close> is absent streams with the media type
  \<open>application/octet-stream\<close>: that is the answer when nothing is raised and the
  record's name can be encoded, and no streamed answer to such a download has another
  media type. In \<open>main.py\<close> no download is answered with a streamed response, and the
  row that its upload inserts stores the effective content type, the default included,
  so there no record of its own has an absent one.
\<close>

theorem content_type_defaults:
  assumes "store_fault e = None"
  shows "(upload_content_type f = None \<longrightarrow>
            map_of (bucket (snd (app_upload_file wa e f))) (app_object_key (uuid4 e) (filename f)) =
              Some \<lparr>data = content f, obj_content_type = ''application/octet-stream''\<rparr>
          \<and> map_of (bucket (snd (main_upload_file wm e f)))
                (service_object_key (uuid4 e) (file_extension f)) =
              Some \<lparr>data = content f, obj_content_type = ''application/octet-stream''\<rparr>)
       \<and> (db_fault e = None \<longrightarrow>
          find (\<lambda>r. a_id r = i) (a_rows (db wa)) = Some r \<longrightarrow> a_content_type r = None \<longrightarrow>
          map_of (bucket wa) (a_minio_object_key r) = Some ob \<longrightarrow>
          list_all (\<lambda>c. c < 256) (a_filename r) \<longrightarrow>
            fst (app_download_file wa e i) =
              Streaming (stream (32 * 1024) (data ob)) (Some ''application/octet-stream'')
                (map char_of (content_disposition (a_filename r))))
       \<and> (fst (app_download_file wa e2 i) = Streaming body mt h \<longrightarrow>
          find (\<lambda>r. a_id r = i) (a_rows (db wa)) = Some r \<longrightarrow> a_content_type r = None \<longrightarrow>
            mt = Some ''application/octet-stream'')
       \<and> fst (main_download_file wm e2 i) \<noteq> Streaming body mt h
       \<and> (db_fault e = None \<longrightarrow>
          service_object_key (uuid4 e) (file_extension f) \<notin> minio_object_key ` set (rows (db wm)) \<longrightarrow>
            content_type (last (rows (db (snd (main_upload_file wm e f))))) =
              Some (or_octet_stream (upload_content_type f)))"
proof (intro conjI impI)
  assume "upload_content_type f = None"
  then show "map_of (bucket (snd (app_upload_file wa e f))) (app_object_key (uuid4 e) (filename f)) =
      Some \<lparr>data = content f, obj_content_type = ''application/octet-stream''\<rparr>"
    using blob_after_app_upload [OF assms, of wa f] by (simp add: or_octet_stream_def)
next
  assume "upload_content_type f = None"
  then show "map_of (bucket (snd (main_upload_file wm e f)))
        (service_object_key (uuid4 e) (file_extension f)) =
      Some \<lparr>data = content f, obj_content_type = ''application/octet-stream''\<rparr>"
    using blob_after_main_upload [OF assms, of wm f] by (simp add: or_octet_stream_def)
next
  assume "db_fault e = None" and "find (\<lambda>r. a_id r = i) (a_rows (db wa)) = Some r"
    and "a_content_type r = None" and "map_of (bucket wa) (a_minio_object_key r) = Some ob"
    and latin: "list_all (\<lambda>c. c < 256) (a_filename r)"
  then show "fst (app_download_file wa e i) =
      Streaming (stream (32 * 1024) (data ob)) (Some ''application/octet-stream'')
        (map char_of (content_disposition (a_filename r)))"
    using assms
    by (simp add: app_download_file_def app_download_row_def app_sql_select_id_def
        get_object_def StreamingResponse_def encode_content_disposition [OF latin]
        log_call_def or_octet_stream_def)
next
  assume "fst (app_download_file wa e2 i) = Streaming body mt h"
    and "find (\<lambda>r. a_id r = i) (a_rows (db wa)) = Some r" and "a_content_type r = None"
  then show "mt = Some ''application/octet-stream''"
    by (auto simp: app_download_file_def app_download_row_def app_sql_select_id_def
        get_object_def StreamingResponse_def log_call_def or_octet_stream_def app_error_def
        Let_def split: option.splits sum.splits exn.splits)
next
  show "fst (main_download_file wm e2 i) \<noteq> Streaming body mt h"
    using main_download_file_always_500 [of wm e2 i] by auto
next
  assume "db_fault e = None"
    and "service_object_key (uuid4 e) (file_extension f) \<notin> minio_object_key ` set (rows (db wm))"
  then show "content_type (last (rows (db (snd (main_upload_file wm e f))))) =
      Some (or_octet_stream (upload_content_type f))"
    by (simp add: main_upload_file_quiet [OF assms] new_row_def)
qed

theorem content_type_defaults_witness:
  "store_fault quiet = None \<and> db_fault quiet = None
   \<and> upload_content_type bare_upload = None
   \<and> map_of (bucket (snd (app_upload_file app_empty_world quiet bare_upload))) (lit ''u2_notes'') =
       Some \<lparr>data = [104, 105], obj_content_type = ''application/octet-stream''\<rparr>
   \<and> map_of (bucket (snd (main_upload_file empty_world quiet bare_upload))) (lit ''u2_file.notes'') =
       Some \<lparr>data = [104, 105], obj_content_type = ''application/octet-stream''\<rparr>
   \<and> find (\<lambda>r. a_id r = 1) (a_rows (db app_bare_world)) = Some app_bare_row
   \<and> a_content_type app_bare_row = None
   \<and> list_all (\<lambda>c. c < 256) (a_filename app_bare_row)
   \<and> fst (app_download_file app_bare_world quiet 1) =
       Streaming [[104, 105]] (Some ''application/octet-stream'') ''attachment; filename=\"notes\"''
   \<and> content_type (last (rows (db (snd (main_upload_file empty_world quiet bare_upload))))) =
       Some ''application/octet-stream''"
proof -
  have w: "find (\<lambda>r. a_id r = 1) (a_rows (db app_bare_world)) = Some app_bare_row"
      "a_content_type app_bare_row = None" "a_minio_object_key app_bare_row = lit ''u1_notes''"
      "a_filename app_bare_row = lit ''notes''"
      "map_of (bucket app_bare_world) (lit ''u1_notes'') =
         Some \<lparr>data = [104, 105], obj_content_type = ''application/octet-stream''\<rparr>"
      "rows (db empty_world) = []"
    by (simp_all add: app_bare_world_def app_bare_row_def empty_world_def)
  have one: "stream 32768 [104, 105] = [[104, 105]]"
    by (simp add: stream_one_chunk)
  have cd: "map char_of (content_disposition (lit ''notes'')) = ''attachment; filename=\"notes\"''"
    by (simp add: content_disposition_lit)
  from content_type_defaults [OF quiet_facts(1), where f = bare_upload and wa = app_empty_world
      and wm = empty_world]
    content_type_defaults [OF quiet_facts(1), where wa = app_bare_world and i = 1
      and r = app_bare_row
      and ob = "\<lparr>data = [104, 105], obj_content_type = ''application/octet-stream''\<rparr>"]
  show ?thesis
    by (simp add: quiet_facts bare_upload_facts key_facts or_octet_stream_facts w one cd
        latin1_lit)
qed

section \<open>The two variants compared\<close>

text \<open>
  C10, as the specification states it, fails: the two variants are not equivalent. The
  same first request to each variant, an upload without a content type into its empty
  stores, is answered by \<open>app.py\<close> with the upload response and by \<open>main.py\<close> with
  status 500; and the row that \<open>app.py\<close> stores has no content type and a key built
  from the file's name, where the row that \<open>main.py\<close> stores has the content type
  \<open>application/octet-stream\<close> and a key built from the extension.
\<close>

theorem variants_differ_on_an_upload_without_content_type:
  "fst (app_upload_file app_empty_world quiet bare_upload) =
     AppUploaded \<lparr>aur_id = 1, aur_filename = lit ''notes'',
                  aur_minio_object_key = lit ''u2_notes'',
                  aur_message = ''File uploaded successfully''\<rparr>
   \<and> a_rows (db (snd (app_upload_file app_empty_world quiet bare_upload))) =
     [\<lparr>a_id = 1, a_filename = lit ''notes'', a_minio_object_key = lit ''u2_notes'',
       a_content_type = None, a_size = Some 2, a_created_at = ''2024-01-02 00:00:00''\<rparr>]
   \<and> fst (main_upload_file empty_world quiet bare_upload) = HttpError 500 (StrOf ValidationError)
   \<and> rows (db (snd (main_upload_file empty_world quiet bare_upload))) =
     [\<lparr>file_id = 1, file_name = lit ''notes'', minio_object_key = lit ''u2_file.notes'',
       content_type = Some ''application/octet-stream'', file_size = Some 2,
       created_at = ''2024-01-02 00:00:00''\<rparr>]"
proof -
  have ka: "app_object_key (uuid4 quiet) (filename bare_upload)
      \<notin> a_minio_object_key ` set (a_rows (db app_empty_world))"
    and km: "service_object_key (uuid4 quiet) (file_extension bare_upload)
      \<notin> minio_object_key ` set (rows (db empty_world))"
    by (simp_all add: app_empty_world_def empty_world_def)
  show ?thesis
    unfolding app_upload_file_quiet [OF quiet_facts(1,2) ka]
      main_upload_file_quiet [OF quiet_facts(1,2) km]
    by (simp add: app_new_row_def new_row_def app_next_id_def next_id_def app_empty_world_def
        empty_world_def quiet_facts bare_upload_facts key_facts or_octet_stream_facts)
qed

text \<open>
  C10, amended. The two variants correspond in this much, when neither store raises and
  their tables correspond (the same ids, names, sizes and timestamps row by row, the same
  counter). Their list responses correspond record by record in the id, the name, the
  size and \<open>created_at\<close>. And an upload of the same file, with keys new to each
  table, appends one row to each table so that the tables correspond again, and puts the
  content into each bucket with the same effective content type. The rows differ in the
  object key, \<open>uuid_filename\<close> in \<open>app.py\<close> and \<open>uuid_file.ext\<close> in
  \<open>main.py\<close>, and in the stored content type, the supplied one in \<open>app.py\<close> and the
  effective one in \<open>main.py\<close>.
\<close>

theorem variants_correspond_on_list_and_upload_effects:
  assumes "db_fault e = None" and "store_fault e = None" and "same_files (db wa) (db wm)"
  shows "fst (app_list_files wa e) =
           AppListed (map app_listed (app_order_by_created_at_desc (a_rows (db wa))))
       \<and> fst (main_list_files_endpoint wm e) =
           Listed (map listed (order_by_created_at_desc (rows (db wm))))
       \<and> list_all2 same_model
           (map app_listed (app_order_by_created_at_desc (a_rows (db wa))))
           (map listed (order_by_created_at_desc (rows (db wm))))
       \<and> (app_object_key (uuid4 e) (filename f) \<notin> a_minio_object_key ` set (a_rows (db wa)) \<longrightarrow>
          service_object_key (uuid4 e) (file_extension f) \<notin> minio_object_key ` set (rows (db wm)) \<longrightarrow>
            same_files (db (snd (app_upload_file wa e f))) (db (snd (main_upload_file wm e f)))
          \<and> a_rows (db (snd (app_upload_file wa e f))) =
              a_rows (db wa) @
                [app_new_row (db wa) e (filename f) (app_object_key (uuid4 e) (filename f))
                   (upload_content_type f) (Some (length (content f)))]
          \<and> rows (db (snd (main_upload_file wm e f))) =
              rows (db wm) @
                [new_row (db wm) e (filename f) (service_object_key (uuid4 e) (file_extension f))
                   (Some (or_octet_stream (upload_content_type f))) (Some (length (content f)))]
          \<and> bucket (snd (app_upload_file wa e f)) =
              AList.update (app_object_key (uuid4 e) (filename f))
                \<lparr>data = content f, obj_content_type = or_octet_stream (upload_content_type f)\<rparr>
                (bucket wa)
          \<and> bucket (snd (main_upload_file wm e f)) =
              AList.update (service_object_key (uuid4 e) (file_extension f))
                \<lparr>data = content f, obj_content_type = or_octet_stream (upload_content_type f)\<rparr>
                (bucket wm))"
proof -
  have rows: "list_all2 same_file (a_rows (db wa)) (rows (db wm))"
    and ids: "app_next_id (db wa) = next_id (db wm)"
    using assms(3) by (simp_all add: same_files_def same_files_next_id)
  have listing: "list_all2 same_model
      (map app_listed (app_order_by_created_at_desc (a_rows (db wa))))
      (map listed (order_by_created_at_desc (rows (db wm))))"
    by (rule same_models_listed) (rule same_file_order [OF rows])
  have appended: "same_files
      \<lparr>a_rows = a_rows (db wa) @ [app_new_row (db wa) e name ka cta sz],
       a_seq = app_next_id (db wa)\<rparr>
      \<lparr>rows = rows (db wm) @ [new_row (db wm) e name km ctm sz], seq = next_id (db wm)\<rparr>"
    for name ka km cta ctm sz
    using rows ids
    by (simp add: same_files_def same_file_def app_new_row_def new_row_def list_all2_appendI)
  show ?thesis
    using assms(1,2) listing appended
    by (simp add: app_list_files_quiet main_list_files_quiet app_upload_file_quiet
        main_upload_file_quiet)
qed

theorem variants_correspond_on_list_and_upload_effects_witness:
  "db_fault quiet = None \<and> store_fault quiet = None
   \<and> same_files (db app_two_rows_world) (db two_rows_world)
   \<and> fst (app_list_files app_two_rows_world quiet) =
       AppListed [app_listed app_later_row, app_listed app_hello_row]
   \<and> fst (main_list_files_endpoint two_rows_world quiet) = Listed [listed later_row, listed hello_row]
   \<and> list_all2 same_model [app_listed app_later_row, app_listed app_hello_row]
       [listed later_row, listed hello_row]
   \<and> same_files (db app_empty_world) (db empty_world)
   \<and> app_object_key (uuid4 quiet) (filename hello_upload)
        \<notin> a_minio_object_key ` set (a_rows (db app_empty_world))
   \<and> service_object_key (uuid4 quiet) (file_extension hello_upload)
        \<notin> minio_object_key ` set (rows (db empty_world))
   \<and> same_files (db (snd (app_upload_file app_empty_world quiet hello_upload)))
       (db (snd (main_upload_file empty_world quiet hello_upload)))
   \<and> a_rows (db (snd (app_upload_file app_empty_world quiet hello_upload))) =
       [\<lparr>a_id = 1, a_filename = lit ''hello.txt'', a_minio_object_key = lit ''u2_hello.txt'',
         a_content_type = Some ''text/plain'', a_size = Some 2,
         a_created_at = ''2024-01-02 00:00:00''\<rparr>]
   \<and> rows (db (snd (main_upload_file empty_world quiet hello_upload))) =
       [\<lparr>file_id = 1, file_name = lit ''hello.txt'', minio_object_key = lit ''u2_file.txt'',
         content_type = Some ''text/plain'', file_size = Some 2,
         created_at = ''2024-01-02 00:00:00''\<rparr>]
   \<and> bucket (snd (app_upload_file app_empty_world quiet hello_upload)) =
       [(lit ''u2_hello.txt'', \<lparr>data = [104, 105], obj_content_type = ''text/plain''\<rparr>)]
   \<and> bucket (snd (main_upload_file empty_world quiet hello_upload)) =
       [(lit ''u2_file.txt'', \<lparr>data = [104, 105], obj_content_type = ''text/plain''\<rparr>)]"
proof -
  have two: "same_files (db app_two_rows_world) (db two_rows_world)"
    by (simp add: same_files_def same_file_def app_two_rows_world_def two_rows_world_def
        app_hello_row_def hello_row_def app_later_row_def later_row_def)
  have none: "same_files (db app_empty_world) (db empty_world)"
    by (simp add: same_files_def app_empty_world_def empty_world_def)
  have e: "a_rows (db app_empty_world) = []" "bucket app_empty_world = []"
      "app_next_id (db app_empty_world) = 1"
      "rows (db empty_world) = []" "bucket empty_world = []" "next_id (db empty_world) = 1"
      "a_rows (db app_two_rows_world) = [app_hello_row, app_later_row]"
      "rows (db two_rows_world) = [hello_row, later_row]"
    by (simp_all add: app_empty_world_def empty_world_def app_next_id_def next_id_def
        app_two_rows_world_def two_rows_world_def)
  from variants_correspond_on_list_and_upload_effects [OF quiet_facts(2,1) two]
    variants_correspond_on_list_and_upload_effects [OF quiet_facts(2,1) none, of hello_upload]
    two none
  show ?thesis
    by (simp add: quiet_facts hello_upload_facts key_facts or_octet_stream_facts e
        app_two_rows_ordered two_rows_ordered app_new_row_def new_row_def)
qed

end
